theory Spec2Isabelle
  imports Complex_Main "HOL-Library.Log_Nat"
begin

section \<open>JavaScript values\<close>

text \<open>
  The class \<open>TelescopeCalc\<close> of \<open>telescopeCalculator.js\<close> computes with JavaScript
  Numbers, the binary64 values of IEEE 754: \<open>NaN\<close>, the two infinities, the two zeros
  and the finite values \<open>m * 2 ^ k\<close> with \<open>\<bar>m\<bar> < 2 ^ 53\<close> and \<open>- 1074 \<le> k \<le> 971\<close>.
  \<open>Fin x\<close> is the Number of real value \<open>x\<close>; \<open>Fin 0\<close> is \<open>+0\<close> and \<open>NegZero\<close> is
  \<open>-0\<close>. The type does not ask that \<open>x\<close> be a binary64 value: what is proved of
  every \<open>Fin x\<close> holds of the Numbers among them, and every result of an operation is
  rounded to one.
\<close>

datatype number = NaN | NegInfinity | NegZero | Fin real | Infinity

text \<open>
  Rounding to the nearest integer, the even one on a tie.
\<close>

definition round_half_even :: "real \<Rightarrow> int" where
  "round_half_even y =
     (let n = \<lfloor>y\<rfloor>; r = y - of_int n
      in if r < 1 / 2 then n else if 1 / 2 < r then n + 1 else if even n then n else n + 1)"

text \<open>
  The binary exponent of a positive real: the integer \<open>n\<close> with \<open>2 ^ n \<le> x < 2 ^ (n + 1)\<close>.
\<close>

definition floor_log2 :: "real \<Rightarrow> int" where
  "floor_log2 x = (if 1 \<le> x then bitlen \<lfloor>x\<rfloor> - 1 else - bitlen (\<lceil>1 / x\<rceil> - 1))"

text \<open>
  The result of an arithmetic operation whose exact value is the real \<open>x \<noteq> 0\<close>: the
  binary64 value nearest to \<open>x\<close>, the one with an even significand on a tie. The
  significand has 53 bits, so the result is a multiple of \<open>2 ^ k\<close> where \<open>k\<close> is 52 below
  the exponent of \<open>x\<close>, and not below \<open>- 1074\<close> (subnormal results). From
  \<open>2 ^ 1024 - 2 ^ 970\<close> on, halfway between the largest finite value and \<open>2 ^ 1024\<close>, the
  result is an infinity (overflow); a result that rounds to zero (underflow) keeps the sign
  of \<open>x\<close>.
\<close>

definition overflow_threshold :: real where
  "overflow_threshold = 2 ^ 1024 - 2 ^ 970"

definition round_double :: "real \<Rightarrow> number" where
  "round_double x =
     (if overflow_threshold \<le> \<bar>x\<bar> then (if x < 0 then NegInfinity else Infinity)
      else let k = max (floor_log2 \<bar>x\<bar> - 52) (- 1074);
               y = of_int (round_half_even (x / 2 powi k)) * 2 powi k
           in if y = 0 then (if x < 0 then NegZero else Fin 0) else Fin y)"

text \<open>The kind, the sign and the real value of a Number.\<close>

fun is_infinity :: "number \<Rightarrow> bool" where
  "is_infinity Infinity = True"
| "is_infinity NegInfinity = True"
| "is_infinity v = False"

fun is_zero :: "number \<Rightarrow> bool" where
  "is_zero (Fin x) = (x = 0)"
| "is_zero NegZero = True"
| "is_zero v = False"

fun is_negative :: "number \<Rightarrow> bool" where
  "is_negative NegInfinity = True"
| "is_negative NegZero = True"
| "is_negative (Fin x) = (x < 0)"
| "is_negative v = False"

fun real_of :: "number \<Rightarrow> real" where
  "real_of (Fin x) = x"
| "real_of v = 0"

definition signed_infinity :: "bool \<Rightarrow> number" where
  "signed_infinity negative = (if negative then NegInfinity else Infinity)"

definition signed_zero :: "bool \<Rightarrow> number" where
  "signed_zero negative = (if negative then NegZero else Fin 0)"

text \<open>
  The operator \<open>x * y\<close>. The sign of the product is negative when the signs of the
  operands differ; an infinity times a zero is \<open>NaN\<close>; the product of two finite values is
  rounded.
\<close>

definition js_mul :: "number \<Rightarrow> number \<Rightarrow> number" where
  "js_mul x y =
     (if x = NaN \<or> y = NaN then NaN
      else if is_infinity x \<or> is_infinity y
      then (if is_zero x \<or> is_zero y then NaN
            else signed_infinity (is_negative x \<noteq> is_negative y))
      else if is_zero x \<or> is_zero y then signed_zero (is_negative x \<noteq> is_negative y)
      else round_double (real_of x * real_of y))"

text \<open>
  The operator \<open>x / y\<close>. Dividing by zero raises nothing in JavaScript: zero by zero and
  infinity by infinity are \<open>NaN\<close>, anything else by zero is an infinity. The quotient of
  two finite values is rounded.
\<close>

definition js_div :: "number \<Rightarrow> number \<Rightarrow> number" where
  "js_div x y =
     (if x = NaN \<or> y = NaN then NaN
      else if is_infinity x
      then (if is_infinity y then NaN else signed_infinity (is_negative x \<noteq> is_negative y))
      else if is_infinity y then signed_zero (is_negative x \<noteq> is_negative y)
      else if is_zero y
      then (if is_zero x then NaN else signed_infinity (is_negative x \<noteq> is_negative y))
      else if is_zero x then signed_zero (is_negative x \<noteq> is_negative y)
      else round_double (real_of x / real_of y))"

text \<open>
  The comparisons \<open>x <= y\<close> and \<open>x < y\<close>: both are false when an operand is \<open>NaN\<close>, and
  the two zeros compare equal.
\<close>

fun js_le :: "number \<Rightarrow> number \<Rightarrow> bool" where
  "js_le NaN y = False"
| "js_le x NaN = False"
| "js_le NegInfinity y = True"
| "js_le x Infinity = True"
| "js_le Infinity y = False"
| "js_le x NegInfinity = False"
| "js_le (Fin x) (Fin y) = (x \<le> y)"
| "js_le NegZero (Fin y) = (0 \<le> y)"
| "js_le (Fin x) NegZero = (x \<le> 0)"
| "js_le NegZero NegZero = True"

fun js_lt :: "number \<Rightarrow> number \<Rightarrow> bool" where
  "js_lt NaN y = False"
| "js_lt x NaN = False"
| "js_lt Infinity y = False"
| "js_lt x NegInfinity = False"
| "js_lt NegInfinity y = True"
| "js_lt x Infinity = True"
| "js_lt (Fin x) (Fin y) = (x < y)"
| "js_lt NegZero (Fin y) = (0 < y)"
| "js_lt (Fin x) NegZero = (x < 0)"
| "js_lt NegZero NegZero = False"

text \<open>
  An argument of the constructor is a Number or \<open>undefined\<close>; an argument left out of
  the call is \<open>undefined\<close> too.
\<close>

datatype jsval = Undefined | Number number

text \<open>
  A parameter declared with a default (\<open>barlowFactor=1\<close>) takes the default when its
  argument is \<open>undefined\<close>.
\<close>

fun default_param :: "jsval \<Rightarrow> number \<Rightarrow> number" where
  "default_param Undefined dflt = dflt"
| "default_param (Number v) dflt = v"

text \<open>
  The value of an argument used as a Number: \<open>undefined\<close> converts to \<open>NaN\<close>.
\<close>

fun to_number :: "jsval \<Rightarrow> number" where
  "to_number Undefined = NaN"
| "to_number (Number v) = v"

section \<open>The class TelescopeCalc\<close>

text \<open>
  The exceptions the class throws, each with the message of the source.
\<close>

datatype error = TypeError string | RangeError string

text \<open>
  The object: its five fields \<open>_telDiameter\<close>, \<open>_telFocalLength\<close>, \<open>_epFocalLength\<close>,
  \<open>_barlowFactor\<close> and \<open>_focalReducerFactor\<close> (an Isabelle name cannot start with an
  underscore, hence the prefix \<open>u\<close>).
\<close>

record TelescopeCalc =
  u_telDiameter :: number
  u_telFocalLength :: number
  u_epFocalLength :: number
  u_barlowFactor :: number
  u_focalReducerFactor :: number

text \<open>
  The constructor returns the new object, or the exception it throws.
\<close>

definition constructor ::
  "jsval \<Rightarrow> jsval \<Rightarrow> jsval \<Rightarrow> jsval \<Rightarrow> jsval \<Rightarrow> error + TelescopeCalc" where
  "constructor telDiameter telFocalLength epFocalLength barlowFactor focalReducerFactor =
     (let barlowFactor = default_param barlowFactor (Fin 1);
          focalReducerFactor = default_param focalReducerFactor (Fin 1)
      in
      if telDiameter = Undefined \<or> telFocalLength = Undefined \<or> epFocalLength = Undefined
      then Inl (TypeError ''arguments telDiameter, telFocalLength, epFocalLength are required.'')
      else if js_le (to_number telDiameter) (Fin 0)
      then Inl (RangeError ''argument telDiameter has to be greater than 0.'')
      else if js_le (to_number telFocalLength) (Fin 0)
      then Inl (RangeError ''argument telFocalLength has to be greater than 0.'')
      else if js_le (to_number epFocalLength) (Fin 0)
      then Inl (RangeError ''argument epFocalLength has to be greater than 0.'')
      else if js_le barlowFactor (Fin 0)
      then Inl (RangeError ''argument barlowFactor has to be greater than 0.'')
      else if js_le focalReducerFactor (Fin 0)
      then Inl (RangeError ''argument focalReducerFactor has to be greater than 0.'')
      else Inr \<lparr>u_telDiameter = to_number telDiameter,
                u_telFocalLength = to_number telFocalLength,
                u_epFocalLength = to_number epFocalLength,
                u_barlowFactor = barlowFactor,
                u_focalReducerFactor = focalReducerFactor\<rparr>)"

subsection \<open>Getters\<close>

definition get_telDiameter :: "TelescopeCalc \<Rightarrow> number" where
  "get_telDiameter this = u_telDiameter this"

definition get_telFocalLength :: "TelescopeCalc \<Rightarrow> number" where
  "get_telFocalLength this = u_telFocalLength this"

definition get_epFocalLength :: "TelescopeCalc \<Rightarrow> number" where
  "get_epFocalLength this = u_epFocalLength this"

definition get_barlowFactor :: "TelescopeCalc \<Rightarrow> number" where
  "get_barlowFactor this = u_barlowFactor this"

definition get_focalReducerFactor :: "TelescopeCalc \<Rightarrow> number" where
  "get_focalReducerFactor this = u_focalReducerFactor this"

subsection \<open>Setters\<close>

text \<open>
  A setter is given a Number. It returns the object after the assignment, or the exception
  it throws; when it throws, nothing has been assigned.
\<close>

definition set_telDiameter :: "number \<Rightarrow> TelescopeCalc \<Rightarrow> error + TelescopeCalc" where
  "set_telDiameter newTelDiameter this =
     (if js_le newTelDiameter (Fin 0)
      then Inl (RangeError ''telDiameter has to be greater than 0.'')
      else Inr (this\<lparr>u_telDiameter := newTelDiameter\<rparr>))"

definition set_telFocalLength :: "number \<Rightarrow> TelescopeCalc \<Rightarrow> error + TelescopeCalc" where
  "set_telFocalLength newFocalLength this =
     (if js_le newFocalLength (Fin 0)
      then Inl (RangeError ''focalLength has to be greater than 0.'')
      else Inr (this\<lparr>u_telFocalLength := newFocalLength\<rparr>))"

definition set_epFocalLength :: "number \<Rightarrow> TelescopeCalc \<Rightarrow> error + TelescopeCalc" where
  "set_epFocalLength newEpFocalLength this =
     (if js_le newEpFocalLength (Fin 0)
      then Inl (RangeError ''epFocalLength has to be greater than 0.'')
      else Inr (this\<lparr>u_epFocalLength := newEpFocalLength\<rparr>))"

definition set_barlowFactor :: "number \<Rightarrow> TelescopeCalc \<Rightarrow> error + TelescopeCalc" where
  "set_barlowFactor newBarlowFactor this =
     (if js_le newBarlowFactor (Fin 0)
      then Inl (RangeError ''barlowFactor has to be greater than 0.'')
      else Inr (this\<lparr>u_barlowFactor := newBarlowFactor\<rparr>))"

definition set_focalReducerFactor :: "number \<Rightarrow> TelescopeCalc \<Rightarrow> error + TelescopeCalc" where
  "set_focalReducerFactor newFRedFactor this =
     (if js_le newFRedFactor (Fin 0)
      then Inl (RangeError ''focalReducerFactor has to be greater than 0.'')
      else Inr (this\<lparr>u_focalReducerFactor := newFRedFactor\<rparr>))"

subsection \<open>Derived computations\<close>

text \<open>
  None of the six methods assigns to a field or throws: each is a function of the object.
  JavaScript evaluates \<open>a * b * c / d\<close> from the left.
\<close>

definition calcMagnification :: "TelescopeCalc \<Rightarrow> number" where
  "calcMagnification this =
     js_div (js_mul (js_mul (u_barlowFactor this) (u_telFocalLength this))
                    (u_focalReducerFactor this))
            (u_epFocalLength this)"

definition calcLowerMagnificationLimit :: "TelescopeCalc \<Rightarrow> number" where
  "calcLowerMagnificationLimit this = js_div (u_telDiameter this) (Fin 6)"

definition calcUpperMagnificationLimit :: "TelescopeCalc \<Rightarrow> number" where
  "calcUpperMagnificationLimit this = js_mul (Fin 2) (u_telDiameter this)"

definition calcFocalRatio :: "TelescopeCalc \<Rightarrow> number" where
  "calcFocalRatio this =
     js_mul (js_div (js_mul (u_barlowFactor this) (u_telFocalLength this)) (u_telDiameter this))
            (u_focalReducerFactor this)"

definition calcExitPupil :: "TelescopeCalc \<Rightarrow> number" where
  "calcExitPupil this = js_div (u_telDiameter this) (calcMagnification this)"

definition calcDawesLimit :: "TelescopeCalc \<Rightarrow> number" where
  "calcDawesLimit this = js_div (Fin 116) (u_telDiameter this)"

subsection \<open>Calls from outside\<close>

text \<open>
  The five properties of the object. An assignment \<open>obj.telDiameter = v\<close> calls the
  setter of that name, and a read \<open>obj.telDiameter\<close> its getter.
\<close>

datatype field = TelDiameter | TelFocalLength | EpFocalLength | BarlowFactor | FocalReducerFactor

fun assign :: "field \<Rightarrow> number \<Rightarrow> TelescopeCalc \<Rightarrow> error + TelescopeCalc" where
  "assign TelDiameter v this = set_telDiameter v this"
| "assign TelFocalLength v this = set_telFocalLength v this"
| "assign EpFocalLength v this = set_epFocalLength v this"
| "assign BarlowFactor v this = set_barlowFactor v this"
| "assign FocalReducerFactor v this = set_focalReducerFactor v this"

fun read :: "field \<Rightarrow> TelescopeCalc \<Rightarrow> number" where
  "read TelDiameter this = get_telDiameter this"
| "read TelFocalLength this = get_telFocalLength this"
| "read EpFocalLength this = get_epFocalLength this"
| "read BarlowFactor this = get_barlowFactor this"
| "read FocalReducerFactor this = get_focalReducerFactor this"

text \<open>
  The object after an assignment: the one the setter returns, or the object as it was when
  the setter threw. A sequence of assignments is run from the left.
\<close>

definition attempt :: "TelescopeCalc \<Rightarrow> field \<times> number \<Rightarrow> TelescopeCalc" where
  "attempt this a = (case assign (fst a) (snd a) this of Inl err \<Rightarrow> this | Inr that \<Rightarrow> that)"

definition run :: "TelescopeCalc \<Rightarrow> (field \<times> number) list \<Rightarrow> TelescopeCalc" where
  "run this as = foldl attempt this as"

text \<open>
  The six computing methods. A call returns the value of the method and the object after
  the call, which is the object before it, since no method assigns to a field.
\<close>

datatype computation =
  CalcMagnification | CalcLowerMagnificationLimit | CalcUpperMagnificationLimit
  | CalcFocalRatio | CalcExitPupil | CalcDawesLimit

fun invoke :: "computation \<Rightarrow> TelescopeCalc \<Rightarrow> number \<times> TelescopeCalc" where
  "invoke CalcMagnification this = (calcMagnification this, this)"
| "invoke CalcLowerMagnificationLimit this = (calcLowerMagnificationLimit this, this)"
| "invoke CalcUpperMagnificationLimit this = (calcUpperMagnificationLimit this, this)"
| "invoke CalcFocalRatio this = (calcFocalRatio this, this)"
| "invoke CalcExitPupil this = (calcExitPupil this, this)"
| "invoke CalcDawesLimit this = (calcDawesLimit this, this)"

section \<open>Vocabulary of the properties\<close>

text \<open>A strictly positive real number.\<close>

fun positive_real :: "number \<Rightarrow> bool" where
  "positive_real (Fin x) = (0 < x)"
| "positive_real v = False"

text \<open>The invariant of the object: its five fields are strictly positive real numbers.\<close>

definition valid :: "TelescopeCalc \<Rightarrow> bool" where
  "valid this \<longleftrightarrow>
     positive_real (u_telDiameter this) \<and> positive_real (u_telFocalLength this) \<and>
     positive_real (u_epFocalLength this) \<and> positive_real (u_barlowFactor this) \<and>
     positive_real (u_focalReducerFactor this)"

text \<open>
  What the checks of the class ask for, \<open>0 < x\<close> as JavaScript compares: a strictly
  positive real number or \<open>Infinity\<close>.
\<close>

definition all_greater_than_zero :: "TelescopeCalc \<Rightarrow> bool" where
  "all_greater_than_zero this \<longleftrightarrow>
     js_lt (Fin 0) (u_telDiameter this) \<and> js_lt (Fin 0) (u_telFocalLength this) \<and>
     js_lt (Fin 0) (u_epFocalLength this) \<and> js_lt (Fin 0) (u_barlowFactor this) \<and>
     js_lt (Fin 0) (u_focalReducerFactor this)"

text \<open>
  The object whose fields are the real numbers \<open>d\<close> (aperture diameter), \<open>f\<close> (focal
  length), \<open>e\<close> (eyepiece focal length), \<open>b\<close> (Barlow factor) and \<open>r\<close> (focal reducer
  factor).
\<close>

definition telescope :: "real \<Rightarrow> real \<Rightarrow> real \<Rightarrow> real \<Rightarrow> real \<Rightarrow> TelescopeCalc" where
  "telescope d f e b r =
     \<lparr>u_telDiameter = Fin d, u_telFocalLength = Fin f, u_epFocalLength = Fin e,
      u_barlowFactor = Fin b, u_focalReducerFactor = Fin r\<rparr>"

text \<open>
  The five values the constructor checks, in the order of its checks, each under the name
  of its parameter; the first of them that is \<open><= 0\<close>; and the exception that reports a
  parameter.
\<close>

definition checked_values ::
  "jsval \<Rightarrow> jsval \<Rightarrow> jsval \<Rightarrow> jsval \<Rightarrow> jsval \<Rightarrow> (string \<times> number) list" where
  "checked_values d f e b r =
     [(''telDiameter'', to_number d), (''telFocalLength'', to_number f),
      (''epFocalLength'', to_number e), (''barlowFactor'', default_param b (Fin 1)),
      (''focalReducerFactor'', default_param r (Fin 1))]"

definition first_violation ::
  "jsval \<Rightarrow> jsval \<Rightarrow> jsval \<Rightarrow> jsval \<Rightarrow> jsval \<Rightarrow> (string \<times> number) option" where
  "first_violation d f e b r = find (\<lambda>nv. js_le (snd nv) (Fin 0)) (checked_values d f e b r)"

definition out_of_range :: "string \<Rightarrow> error" where
  "out_of_range name = RangeError (''argument '' @ name @ '' has to be greater than 0.'')"

text \<open>
  A value to two decimals, as \<open>toFixed(2)\<close> of the interface displays a result that is
  not negative: the nearest multiple of 1/100, the larger one on a tie.
\<close>

definition two_decimals :: "real \<Rightarrow> real" where
  "two_decimals x = of_int \<lfloor>x * 100 + 1 / 2\<rfloor> / 100"

text \<open>
  The formulas of the specification's table, over the values of the five properties: the
  magnification \<open>barlowFactor * focalLength * focalReducerFactor / eyepieceFocalLength\<close>,
  the lower limit \<open>apertureDiameter / 6.0\<close>, the upper limit \<open>2.0 * apertureDiameter\<close>, the
  focal ratio \<open>(barlowFactor * focalLength / apertureDiameter) * focalReducerFactor\<close>, the exit
  pupil \<open>apertureDiameter / magnification\<close> and the Dawes limit \<open>116.0 / apertureDiameter\<close>.
\<close>

fun formula :: "computation \<Rightarrow> (field \<Rightarrow> number) \<Rightarrow> number" where
  "formula CalcMagnification val =
     js_div (js_mul (js_mul (val BarlowFactor) (val TelFocalLength)) (val FocalReducerFactor))
            (val EpFocalLength)"
| "formula CalcLowerMagnificationLimit val = js_div (val TelDiameter) (Fin 6)"
| "formula CalcUpperMagnificationLimit val = js_mul (Fin 2) (val TelDiameter)"
| "formula CalcFocalRatio val =
     js_mul (js_div (js_mul (val BarlowFactor) (val TelFocalLength)) (val TelDiameter))
            (val FocalReducerFactor)"
| "formula CalcExitPupil val =
     js_div (val TelDiameter)
       (js_div (js_mul (js_mul (val BarlowFactor) (val TelFocalLength)) (val FocalReducerFactor))
               (val EpFocalLength))"
| "formula CalcDawesLimit val = js_div (Fin 116) (val TelDiameter)"

text \<open>
  A result that is zero, a positive real or \<open>Infinity\<close>: neither \<open>NaN\<close> nor negative.
\<close>

fun nonneg_or_infinity :: "number \<Rightarrow> bool" where
  "nonneg_or_infinity (Fin x) = (0 \<le> x)"
| "nonneg_or_infinity Infinity = True"
| "nonneg_or_infinity v = False"

text \<open>
  Magnitudes. A real between \<open>2 ^ a\<close> and \<open>2 ^ b\<close>; a moderate one is between
  \<open>2 ^ - 200\<close> and \<open>2 ^ 200\<close>.
\<close>

definition pow2_between :: "int \<Rightarrow> int \<Rightarrow> real \<Rightarrow> bool" where
  "pow2_between a b x \<longleftrightarrow> 2 powi a \<le> x \<and> x \<le> 2 powi b"

definition moderate :: "real \<Rightarrow> bool" where
  "moderate x \<longleftrightarrow> 1 / 2 ^ 200 \<le> x \<and> x \<le> 2 ^ 200"

text \<open>
  Two positive reals that a sequence of \<open>k\<close> roundings can separate: each is at most the
  other times \<open>(1 + 2 ^ - 52) ^ k\<close>.
\<close>

definition rounding_factor :: real where
  "rounding_factor = 1 + 1 / 2 ^ 52"

definition near :: "nat \<Rightarrow> real \<Rightarrow> real \<Rightarrow> bool" where
  "near k x y \<longleftrightarrow>
     0 < x \<and> 0 < y \<and> y \<le> rounding_factor ^ k * x \<and> x \<le> rounding_factor ^ k * y"

section \<open>Rounding\<close>

lemma round_half_even_close: "\<bar>of_int (round_half_even y) - y\<bar> \<le> 1 / 2"
  unfolding round_half_even_def Let_def by (auto; linarith)

lemma round_half_even_of_int: "round_half_even (of_int m) = m"
  by (simp add: round_half_even_def)

lemma round_half_even_ge: "of_int m \<le> y \<Longrightarrow> m \<le> round_half_even y"
  unfolding round_half_even_def Let_def by (auto simp: le_floor_iff; linarith)

lemma round_half_even_le: "y \<le> of_int m \<Longrightarrow> round_half_even y \<le> m"
  unfolding round_half_even_def Let_def
  by (auto; linarith)

lemma floor_log2_bounds:
  assumes "0 < x"
  shows "2 powi (floor_log2 x) \<le> x" and "x < 2 powi (floor_log2 x + 1)"
proof -
  have "2 powi (floor_log2 x) \<le> x \<and> x < 2 powi (floor_log2 x + 1)"
  proof (cases "1 \<le> x")
    case True
    define m where "m = \<lfloor>x\<rfloor>"
    have m: "0 < m" "of_int m \<le> x" "x < of_int m + 1"
      using True by (auto simp: m_def; linarith)+
    define bl where "bl = bitlen m"
    have bl: "2 ^ nat (bl - 1) \<le> m" "m < 2 ^ nat bl"
      using bitlen_bounds [OF m(1)] by (simp_all add: bl_def)
    have bl1: "1 \<le> bl"
      using m(1) by (auto simp: bl_def bitlen_alt_def)
    have fl: "floor_log2 x = bl - 1"
      using True by (simp add: floor_log2_def bl_def m_def)
    have "(2::real) ^ nat (bl - 1) \<le> of_int m"
      using bl(1) of_int_le_iff [of "2 ^ nat (bl - 1)" m, where ?'a = real] by simp
    then have "(2::real) ^ nat (bl - 1) \<le> x"
      using m(2) by linarith
    then have lo: "2 powi (bl - 1) \<le> x"
      using bl1 by (simp add: power_int_nonneg_exp)
    have "m + 1 \<le> 2 ^ nat bl" using bl(2) by simp
    then have "of_int m + 1 \<le> (2::real) ^ nat bl"
      using of_int_le_iff [of "m + 1" "2 ^ nat bl", where ?'a = real] by simp
    then have "x < (2::real) ^ nat bl"
      using m(3) by linarith
    then have hi: "x < 2 powi bl"
      using bl1 by (simp add: power_int_nonneg_exp)
    show ?thesis using lo hi by (simp add: fl)
  next
    case False
    define y where "y = 1 / x"
    have y: "1 < y" using False assms by (simp add: y_def)
    define m where "m = \<lceil>y\<rceil> - 1"
    have m: "0 < m" "of_int m < y" "y \<le> of_int m + 1"
      using y by (auto simp: m_def; linarith)+
    define bl where "bl = bitlen m"
    have bl: "2 ^ nat (bl - 1) \<le> m" "m < 2 ^ nat bl"
      using bitlen_bounds [OF m(1)] by (simp_all add: bl_def)
    have bl1: "1 \<le> bl"
      using m(1) by (auto simp: bl_def bitlen_alt_def)
    have fl: "floor_log2 x = - bl"
      using False by (simp add: floor_log2_def bl_def m_def y_def)
    have "(2::real) ^ nat (bl - 1) \<le> of_int m"
      using bl(1) of_int_le_iff [of "2 ^ nat (bl - 1)" m, where ?'a = real] by simp
    then have "(2::real) ^ nat (bl - 1) < y"
      using m(2) by linarith
    then have "2 powi (bl - 1) < y"
      using bl1 by (simp add: power_int_nonneg_exp)
    then have hi: "x < 2 powi (- bl + 1)"
      using assms unfolding y_def
      by (simp add: power_int_minus_divide [of 2 "bl - 1", simplified] field_simps)
    have "m + 1 \<le> 2 ^ nat bl" using bl(2) by simp
    then have "of_int m + 1 \<le> (2::real) ^ nat bl"
      using of_int_le_iff [of "m + 1" "2 ^ nat bl", where ?'a = real] by simp
    then have "y \<le> (2::real) ^ nat bl"
      using m(3) by linarith
    then have "y \<le> 2 powi bl"
      using bl1 by (simp add: power_int_nonneg_exp)
    then have lo: "2 powi (- bl) \<le> x"
      using assms unfolding y_def
      by (simp add: power_int_minus_divide field_simps)
    show ?thesis using lo hi by (simp add: fl)
  qed
  then show "2 powi (floor_log2 x) \<le> x" and "x < 2 powi (floor_log2 x + 1)"
    by simp_all
qed

lemma pow2_exponent_unique:
  fixes x :: real
  assumes "2 powi a \<le> x" "x < 2 powi (a + 1)" "2 powi b \<le> x" "x < 2 powi (b + 1)"
  shows "a = b"
proof (rule ccontr)
  assume "a \<noteq> b"
  then consider "a + 1 \<le> b" | "b + 1 \<le> a" by linarith
  then show False
  proof cases
    case 1
    then have "(2::real) powi (a + 1) \<le> 2 powi b"
      by (intro power_int_increasing) simp_all
    then show False using assms by linarith
  next
    case 2
    then have "(2::real) powi (b + 1) \<le> 2 powi a"
      by (intro power_int_increasing) simp_all
    then show False using assms by linarith
  qed
qed

lemma floor_log2_eq:
  assumes "2 powi e \<le> x" "x < 2 powi (e + 1)"
  shows "floor_log2 x = e"
proof -
  have "(0::real) < 2 powi e" by simp
  then have "0 < x" using assms(1) by linarith
  from floor_log2_bounds [OF this] assms show ?thesis
    using pow2_exponent_unique by blast
qed

lemma overflow_threshold_gt: "2 powi 1023 < overflow_threshold"
  by (simp add: overflow_threshold_def)

lemma overflow_threshold_pos: "0 < overflow_threshold"
proof -
  have "(0::real) < 2 powi 1023" by simp
  then show ?thesis using overflow_threshold_gt by linarith
qed

lemma round_double_unfold:
  assumes "0 < x" "x < overflow_threshold"
  shows "round_double x =
    (if round_half_even (x / 2 powi (max (floor_log2 x - 52) (- 1074))) = 0 then Fin 0
     else Fin (of_int (round_half_even (x / 2 powi (max (floor_log2 x - 52) (- 1074))))
            * 2 powi (max (floor_log2 x - 52) (- 1074))))"
  using assms by (simp add: round_double_def Let_def)

lemma pow2_split: "(2::real) powi (m + n) = 2 powi m * 2 powi n"
  by (simp add: power_int_add)

lemma round_double_eval:
  assumes "2 powi e \<le> x" "x < 2 powi (e + 1)" "- 1022 \<le> e" "x < overflow_threshold"
  shows "round_double x = Fin (of_int (round_half_even (x / 2 powi (e - 52))) * 2 powi (e - 52))"
    and "2 ^ 52 \<le> round_half_even (x / 2 powi (e - 52))"
    and "round_half_even (x / 2 powi (e - 52)) \<le> 2 ^ 53"
proof -
  have "(0::real) < 2 powi e" by simp
  then have pos: "0 < x" using assms(1) by linarith
  have fl: "floor_log2 x = e"
    using assms(1,2) by (rule floor_log2_eq)
  have k: "max (e - 52) (- 1074) = e - 52"
    using assms(3) by simp
  define s where "s = x / 2 powi (e - 52)"
  have "2 powi e = (2::real) powi 52 * 2 powi (e - 52)"
    using pow2_split [of 52 "e - 52"] by simp
  then have "of_int (2 ^ 52) \<le> s"
    using assms(1) by (simp add: s_def field_simps)
  then show lo: "2 ^ 52 \<le> round_half_even (x / 2 powi (e - 52))"
    unfolding s_def [symmetric] by (rule round_half_even_ge)
  have "2 powi (e + 1) = (2::real) powi 53 * 2 powi (e - 52)"
    using pow2_split [of 53 "e - 52"] by (simp add: algebra_simps)
  then have "s \<le> of_int (2 ^ 53)"
    using assms(2) by (simp add: s_def field_simps)
  then show "round_half_even (x / 2 powi (e - 52)) \<le> 2 ^ 53"
    unfolding s_def [symmetric] by (rule round_half_even_le)
  have "round_half_even (x / 2 powi (e - 52)) \<noteq> 0"
    using lo by auto
  then show "round_double x = Fin (of_int (round_half_even (x / 2 powi (e - 52))) * 2 powi (e - 52))"
    using round_double_unfold [OF pos assms(4)] by (simp add: fl k)
qed

lemma round_double_overflow:
  assumes "overflow_threshold \<le> x"
  shows "round_double x = Infinity"
  using assms overflow_threshold_pos by (simp add: round_double_def)

lemma round_double_underflow:
  assumes "0 < x" "x \<le> 2 powi (- 1075)"
  shows "round_double x = Fin 0"
proof -
  have "(2::real) powi (- 1075) < 2 powi 1023"
    by (intro power_int_strict_increasing) simp_all
  then have small: "x < overflow_threshold"
    using assms(2) overflow_threshold_gt by linarith
  have "floor_log2 x + 1 \<le> - 1074"
  proof (rule ccontr)
    assume "\<not> floor_log2 x + 1 \<le> - 1074"
    then have "- 1074 \<le> floor_log2 x" by simp
    then have "(2::real) powi (- 1074) \<le> 2 powi (floor_log2 x)"
      by (intro power_int_increasing) simp_all
    moreover have "(2::real) powi (- 1075) < 2 powi (- 1074)"
      by (intro power_int_strict_increasing) simp_all
    ultimately show False
      using floor_log2_bounds(1) [OF assms(1)] assms(2) by linarith
  qed
  then have k: "max (floor_log2 x - 52) (- 1074) = - 1074"
    by simp
  define s where "s = x / 2 powi (- 1074)"
  have "(2::real) powi (- 1075) = 2 powi (- 1) * 2 powi (- 1074)"
    using pow2_split [of "- 1" "- 1074"] by simp
  then have "s \<le> 1 / 2"
    using assms(2) by (simp add: s_def field_simps)
  moreover have "0 < s"
    using assms(1) by (simp add: s_def)
  ultimately have "\<lfloor>s\<rfloor> = 0" and "\<not> 1 / 2 < s"
    by (simp_all add: floor_eq_iff)
  then have "round_half_even s = 0"
    by (simp add: round_half_even_def Let_def)
  then show ?thesis
    using round_double_unfold [OF assms(1) small] by (simp add: k s_def)
qed

lemma round_double_pos:
  assumes "0 < x"
  shows "round_double x = Infinity \<or> (\<exists>y. 0 \<le> y \<and> round_double x = Fin y)"
proof (cases "x < overflow_threshold")
  case True
  define k where "k = max (floor_log2 x - 52) (- 1074)"
  have "of_int 0 \<le> x / 2 powi k"
    using assms by simp
  then have "0 \<le> round_half_even (x / 2 powi k)"
    by (rule round_half_even_ge)
  then have "0 \<le> of_int (round_half_even (x / 2 powi k)) * (2::real) powi k"
    by simp
  then show ?thesis
    using round_double_unfold [OF assms True] unfolding k_def [symmetric] by auto
next
  case False
  then show ?thesis by (simp add: round_double_overflow)
qed

lemma round_double_range:
  assumes "2 powi a \<le> x" "x \<le> 2 powi b" "- 1022 \<le> a" "b \<le> 1023"
  shows "\<exists>y. round_double x = Fin y \<and> 2 powi a \<le> y \<and> y \<le> 2 powi b
           \<and> \<bar>y - x\<bar> \<le> x / 2 ^ 53"
proof -
  have "(0::real) < 2 powi a" by simp
  then have pos: "0 < x" using assms(1) by linarith
  define e where "e = floor_log2 x"
  have e: "2 powi e \<le> x" "x < 2 powi (e + 1)"
    using floor_log2_bounds [OF pos] by (simp_all add: e_def)
  have ae: "a \<le> e"
  proof (rule ccontr)
    assume "\<not> a \<le> e"
    then have "(2::real) powi (e + 1) \<le> 2 powi a"
      by (intro power_int_increasing) simp_all
    then show False using assms(1) e(2) by linarith
  qed
  have eb: "e \<le> b"
  proof (rule ccontr)
    assume "\<not> e \<le> b"
    then have "(2::real) powi (b + 1) \<le> 2 powi e"
      by (intro power_int_increasing) simp_all
    moreover have "(2::real) powi b < 2 powi (b + 1)"
      by (intro power_int_strict_increasing) simp_all
    ultimately show False using assms(2) e(1) by linarith
  qed
  have "(2::real) powi b \<le> 2 powi 1023"
    using assms(4) by (intro power_int_increasing) simp_all
  then have small: "x < overflow_threshold"
    using assms(2) overflow_threshold_gt by linarith
  have e1022: "- 1022 \<le> e"
    using assms(3) ae by linarith
  define k where "k = e - 52"
  define n where "n = round_half_even (x / 2 powi k)"
  define y where "y = of_int n * (2::real) powi k"
  have rd: "round_double x = Fin y" and n_lo: "2 ^ 52 \<le> n"
    using round_double_eval [OF e e1022 small] by (simp_all add: y_def n_def k_def)
  have pk: "(0::real) < 2 powi k" by simp
  have "(2::real) powi e = 2 powi 52 * 2 powi k"
    using pow2_split [of 52 k] by (simp add: k_def)
  moreover have "(2::real) ^ 52 \<le> of_int n"
    using n_lo of_int_le_iff [of "2 ^ 52" n, where ?'a = real] by simp
  ultimately have "2 powi e \<le> y"
    using pk by (simp add: y_def)
  moreover have "(2::real) powi a \<le> 2 powi e"
    using ae by (intro power_int_increasing) simp_all
  ultimately have lo: "2 powi a \<le> y" by linarith
  have bk: "0 \<le> b - k"
    using eb by (simp add: k_def)
  have split: "(2::real) powi b = 2 powi (b - k) * 2 powi k"
    using pow2_split [of "b - k" k] by simp
  have "x / 2 powi k \<le> 2 powi (b - k)"
    using assms(2) pk by (simp add: split field_simps)
  also have "(2::real) powi (b - k) = of_int (2 ^ nat (b - k))"
    using bk by (simp add: power_int_nonneg_exp)
  finally have "n \<le> 2 ^ nat (b - k)"
    unfolding n_def by (rule round_half_even_le)
  then have "of_int n \<le> (2::real) ^ nat (b - k)"
    using of_int_le_iff [of n "2 ^ nat (b - k)", where ?'a = real] by simp
  then have "of_int n \<le> (2::real) powi (b - k)"
    using bk by (simp add: power_int_nonneg_exp)
  then have "y \<le> 2 powi (b - k) * 2 powi k"
    unfolding y_def using pk by (simp del: of_int_le_iff)
  then have hi: "y \<le> 2 powi b"
    by (simp add: split)
  have "\<bar>of_int n - x / 2 powi k\<bar> \<le> 1 / 2"
    unfolding n_def by (rule round_half_even_close)
  then have "\<bar>of_int n - x / 2 powi k\<bar> * 2 powi k \<le> 1 / 2 * 2 powi k"
    using pk by (intro mult_right_mono) simp_all
  moreover have "\<bar>of_int n - x / 2 powi k\<bar> * 2 powi k = \<bar>y - x\<bar>"
  proof -
    have "\<bar>of_int n - x / 2 powi k\<bar> * 2 powi k = \<bar>(of_int n - x / 2 powi k) * 2 powi k\<bar>"
      using pk by (simp add: abs_mult)
    also have "(of_int n - x / 2 powi k) * 2 powi k = y - x"
      using pk by (simp add: y_def field_simps)
    finally show ?thesis .
  qed
  moreover have "(2::real) powi e = 2 ^ 53 * (1 / 2 * 2 powi k)"
    using pow2_split [of 52 k] by (simp add: k_def)
  then have "1 / 2 * 2 powi k \<le> x / 2 ^ 53"
    using e(1) by (simp add: field_simps)
  ultimately have "\<bar>y - x\<bar> \<le> x / 2 ^ 53" by linarith
  with rd lo hi show ?thesis by blast
qed

lemma round_double_exact:
  assumes "0 < m" "m < 2 ^ 53" "- 1074 \<le> j" "j \<le> 971"
  shows "round_double (of_int m * 2 powi j) = Fin (of_int m * 2 powi j)"
proof -
  define x where "x = of_int m * (2::real) powi j"
  have pos: "0 < x"
    using assms(1) by (simp add: x_def)
  have m1: "(1::real) \<le> of_int m" and m53: "of_int m + 1 \<le> (2::real) ^ 53"
    using assms(1,2) of_int_le_iff [of "m + 1" "2 ^ 53", where ?'a = real] by simp_all
  have "x \<le> (2 ^ 53 - 1) * 2 powi j"
    unfolding x_def using m53 by (intro mult_right_mono) simp_all
  also have "\<dots> \<le> (2 ^ 53 - 1) * 2 powi 971"
    using assms(4) by (intro mult_left_mono power_int_increasing) simp_all
  also have "\<dots> < overflow_threshold"
    by (simp add: overflow_threshold_def)
  finally have small: "x < overflow_threshold" .
  define e where "e = floor_log2 x"
  have e: "2 powi e \<le> x" "x < 2 powi (e + 1)"
    using floor_log2_bounds [OF pos] by (simp_all add: e_def)
  have "x < 2 ^ 53 * 2 powi j"
    unfolding x_def using m53 by (intro mult_strict_right_mono) simp_all
  also have "\<dots> = 2 powi (53 + j)"
    using pow2_split [of 53 j] by simp
  finally have "2 powi e < (2::real) powi (53 + j)"
    using e(1) by linarith
  then have "e < 53 + j"
    by (metis power_int_increasing linorder_not_less one_le_numeral)
  define k where "k = max (e - 52) (- 1074)"
  have kj: "k \<le> j"
    using \<open>e < 53 + j\<close> assms(3) by (simp add: k_def)
  have "(2::real) powi j = 2 powi (j - k) * 2 powi k"
    using pow2_split [of "j - k" k] by simp
  also have "(2::real) powi (j - k) = of_int (2 ^ nat (j - k))"
    using kj by (simp add: power_int_nonneg_exp)
  finally have scaled: "x / 2 powi k = of_int (m * 2 ^ nat (j - k))"
    by (simp add: x_def)
  then have "round_half_even (x / 2 powi k) = m * 2 ^ nat (j - k)"
    by (simp only: round_half_even_of_int)
  moreover from this have "of_int (round_half_even (x / 2 powi k)) * 2 powi k
      = x / 2 powi k * 2 powi k"
    by (simp only: scaled)
  then have "of_int (round_half_even (x / 2 powi k)) * 2 powi k = x"
    by simp
  moreover have "m * 2 ^ nat (j - k) \<noteq> 0"
    using assms(1) by simp
  ultimately have "round_double x = Fin x"
    using round_double_unfold [OF pos small] unfolding e_def [symmetric] k_def [symmetric]
    by simp
  then show ?thesis by (simp add: x_def)
qed


section \<open>Products and quotients of finite values\<close>

lemma js_mul_Fin:
  assumes "x \<noteq> 0" and "y \<noteq> 0"
  shows "js_mul (Fin x) (Fin y) = round_double (x * y)"
  using assms by (simp add: js_mul_def)

lemma js_div_Fin:
  assumes "x \<noteq> 0" and "y \<noteq> 0"
  shows "js_div (Fin x) (Fin y) = round_double (x / y)"
  using assms by (simp add: js_div_def)

lemma round_double_of_int:
  assumes "0 < m" and "m < 2 ^ 53"
  shows "round_double (of_int m) = Fin (of_int m)"
  using round_double_exact [OF assms, of 0] by simp

lemma round_double_1: "round_double 1 = Fin 1"
  using round_double_of_int [of 1] by simp

section \<open>Shared facts\<close>

lemma positive_real_iff: "positive_real v \<longleftrightarrow> (\<exists>x. v = Fin x \<and> 0 < x)"
  by (cases v) simp_all

lemma valid_telescope: "valid (telescope d f e b r) \<longleftrightarrow> 0 < d \<and> 0 < f \<and> 0 < e \<and> 0 < b \<and> 0 < r"
  by (simp add: valid_def telescope_def)

lemma valid_is_telescope:
  "valid this \<longleftrightarrow> (\<exists>d f e b r. this = telescope d f e b r \<and> 0 < d \<and> 0 < f \<and> 0 < e \<and> 0 < b \<and> 0 < r)"
  (is "?L \<longleftrightarrow> ?R")
proof
  assume ?L
  then obtain d f e b r where fields:
    "u_telDiameter this = Fin d" "u_telFocalLength this = Fin f" "u_epFocalLength this = Fin e"
    "u_barlowFactor this = Fin b" "u_focalReducerFactor this = Fin r"
    and pos: "0 < d" "0 < f" "0 < e" "0 < b" "0 < r"
    unfolding valid_def positive_real_iff by blast
  from fields have "this = telescope d f e b r"
    by (simp add: telescope_def)
  with pos show ?R by blast
next
  assume ?R
  then show ?L by (auto simp: valid_telescope)
qed

lemma constructor_telescope:
  assumes "0 < d" and "0 < f" and "0 < e" and "0 < b" and "0 < r"
  shows "constructor (Number (Fin d)) (Number (Fin f)) (Number (Fin e))
           (Number (Fin b)) (Number (Fin r)) = Inr (telescope d f e b r)"
  using assms by (simp add: constructor_def Let_def telescope_def)

lemma constructor_telescope_default:
  assumes "0 < d" and "0 < f" and "0 < e"
  shows "constructor (Number (Fin d)) (Number (Fin f)) (Number (Fin e)) Undefined Undefined
           = Inr (telescope d f e 1 1)"
  using assms by (simp add: constructor_def Let_def telescope_def)

section \<open>Construction\<close>

text \<open>
  C1. For every quintuple of strictly positive real numbers \<open>(d, f, e, b, r)\<close> the
  constructor succeeds and each of the five getters returns the value supplied for its
  field; when the Barlow and focal reducer factors are left out, their getters return 1.
\<close>

theorem constructor_positive_getters:
  assumes "0 < d" and "0 < f" and "0 < e" and "0 < b" and "0 < r"
  shows "(\<exists>t. constructor (Number (Fin d)) (Number (Fin f)) (Number (Fin e))
                (Number (Fin b)) (Number (Fin r)) = Inr t
            \<and> get_telDiameter t = Fin d \<and> get_telFocalLength t = Fin f
            \<and> get_epFocalLength t = Fin e \<and> get_barlowFactor t = Fin b
            \<and> get_focalReducerFactor t = Fin r)
       \<and> (\<exists>t. constructor (Number (Fin d)) (Number (Fin f)) (Number (Fin e))
                Undefined Undefined = Inr t
            \<and> get_telDiameter t = Fin d \<and> get_telFocalLength t = Fin f
            \<and> get_epFocalLength t = Fin e \<and> get_barlowFactor t = Fin 1
            \<and> get_focalReducerFactor t = Fin 1)"
  using assms
  by (simp add: constructor_def Let_def get_telDiameter_def get_telFocalLength_def
      get_epFocalLength_def get_barlowFactor_def get_focalReducerFactor_def)

theorem constructor_positive_getters_witness:
  "(\<exists>t. constructor (Number (Fin 200)) (Number (Fin 1000)) (Number (Fin 10))
                (Number (Fin 2)) (Number (Fin (1 / 2))) = Inr t
            \<and> get_telDiameter t = Fin 200 \<and> get_telFocalLength t = Fin 1000
            \<and> get_epFocalLength t = Fin 10 \<and> get_barlowFactor t = Fin 2
            \<and> get_focalReducerFactor t = Fin (1 / 2))
       \<and> (\<exists>t. constructor (Number (Fin 200)) (Number (Fin 1000)) (Number (Fin 10))
                Undefined Undefined = Inr t
            \<and> get_telDiameter t = Fin 200 \<and> get_telFocalLength t = Fin 1000
            \<and> get_epFocalLength t = Fin 10 \<and> get_barlowFactor t = Fin 1
            \<and> get_focalReducerFactor t = Fin 1)"
  using constructor_positive_getters [of 200 1000 10 2 "1 / 2"] by simp

text \<open>
  C2. The constructor fails with a TypeError (MissingArgument) whenever the aperture
  diameter, the focal length or the eyepiece focal length is absent or undefined, whatever
  the other arguments are: this check comes before every range check. Otherwise it fails
  with a RangeError (OutOfRange) whenever one of the five resulting values is \<open><= 0\<close>,
  and the exception reports the first such value in the order aperture, focal length,
  eyepiece focal length, Barlow factor, focal reducer factor.
\<close>

theorem constructor_failures:
  "(d = Undefined \<or> f = Undefined \<or> e = Undefined \<longrightarrow>
      constructor d f e b r =
        Inl (TypeError ''arguments telDiameter, telFocalLength, epFocalLength are required.''))
   \<and> (d \<noteq> Undefined \<and> f \<noteq> Undefined \<and> e \<noteq> Undefined
        \<and> (\<exists>nv \<in> set (checked_values d f e b r). js_le (snd nv) (Fin 0)) \<longrightarrow>
      (\<exists>name v. first_violation d f e b r = Some (name, v)
         \<and> constructor d f e b r = Inl (out_of_range name)))"
  by (auto simp: constructor_def Let_def checked_values_def first_violation_def out_of_range_def)

theorem constructor_failures_witness:
  "constructor (Number (Fin (- 1))) Undefined (Number (Fin 10)) (Number (Fin 0)) Undefined =
      Inl (TypeError ''arguments telDiameter, telFocalLength, epFocalLength are required.'')
   \<and> first_violation (Number (Fin 200)) (Number (Fin 0)) (Number (Fin 10)) (Number (Fin (- 2)))
        Undefined = Some (''telFocalLength'', Fin 0)
   \<and> constructor (Number (Fin 200)) (Number (Fin 0)) (Number (Fin 10)) (Number (Fin (- 2)))
        Undefined = Inl (RangeError ''argument telFocalLength has to be greater than 0.'')"
  using constructor_failures [of "Number (Fin (- 1))" Undefined "Number (Fin 10)"
      "Number (Fin 0)" Undefined]
    constructor_failures [of "Number (Fin 200)" "Number (Fin 0)" "Number (Fin 10)"
      "Number (Fin (- 2))" Undefined]
  by (simp add: checked_values_def first_violation_def out_of_range_def)

section \<open>The invariant\<close>

lemma not_le_zero_greater:
  assumes "v \<noteq> NaN" and "\<not> js_le v (Fin 0)"
  shows "js_lt (Fin 0) v"
  using assms by (cases v) simp_all

lemma greater_positive_real:
  assumes "js_lt (Fin 0) v" and "v \<noteq> Infinity"
  shows "positive_real v"
  using assms by (cases v) simp_all

lemma all_greater_valid:
  assumes "all_greater_than_zero this"
    and "u_telDiameter this \<noteq> Infinity" and "u_telFocalLength this \<noteq> Infinity"
    and "u_epFocalLength this \<noteq> Infinity" and "u_barlowFactor this \<noteq> Infinity"
    and "u_focalReducerFactor this \<noteq> Infinity"
  shows "valid this"
  using assms by (simp add: all_greater_than_zero_def valid_def greater_positive_real)

lemma constructor_fields:
  assumes "constructor d f e b r = Inr t"
  shows "d \<noteq> Undefined" and "f \<noteq> Undefined" and "e \<noteq> Undefined"
    and "u_telDiameter t = to_number d" and "u_telFocalLength t = to_number f"
    and "u_epFocalLength t = to_number e" and "u_barlowFactor t = default_param b (Fin 1)"
    and "u_focalReducerFactor t = default_param r (Fin 1)"
    and "\<not> js_le (to_number d) (Fin 0)" and "\<not> js_le (to_number f) (Fin 0)"
    and "\<not> js_le (to_number e) (Fin 0)" and "\<not> js_le (default_param b (Fin 1)) (Fin 0)"
    and "\<not> js_le (default_param r (Fin 1)) (Fin 0)"
  using assms by (auto simp: constructor_def Let_def split: if_splits)

lemma to_number_not:
  assumes "a \<noteq> Undefined" and "Number w \<noteq> a"
  shows "to_number a \<noteq> w"
  using assms by (cases a) simp_all

lemma default_param_not:
  assumes "Number w \<noteq> a" and "w \<noteq> Fin 1"
  shows "default_param a (Fin 1) \<noteq> w"
  using assms by (cases a) auto

lemma constructor_greater:
  assumes "constructor d f e b r = Inr t" and "Number NaN \<notin> set [d, f, e, b, r]"
  shows "all_greater_than_zero t"
proof -
  note c = constructor_fields [OF assms(1)]
  have "to_number d \<noteq> NaN" "to_number f \<noteq> NaN" "to_number e \<noteq> NaN"
    "default_param b (Fin 1) \<noteq> NaN" "default_param r (Fin 1) \<noteq> NaN"
    using assms(2) c(1-3) by (simp_all add: to_number_not default_param_not)
  then show ?thesis
    using c(4-13) by (simp add: all_greater_than_zero_def not_le_zero_greater)
qed

lemma constructor_valid:
  assumes "constructor d f e b r = Inr t" and "Number NaN \<notin> set [d, f, e, b, r]"
    and "Number Infinity \<notin> set [d, f, e, b, r]"
  shows "valid t"
proof -
  note c = constructor_fields [OF assms(1)]
  have "to_number d \<noteq> Infinity" "to_number f \<noteq> Infinity" "to_number e \<noteq> Infinity"
    "default_param b (Fin 1) \<noteq> Infinity" "default_param r (Fin 1) \<noteq> Infinity"
    using assms(3) c(1-3) by (simp_all add: to_number_not default_param_not)
  then show ?thesis
    using constructor_greater [OF assms(1,2)] c(4-8) by (simp add: all_greater_valid)
qed

lemma attempt_greater:
  assumes "all_greater_than_zero this" and "snd a \<noteq> NaN"
  shows "all_greater_than_zero (attempt this a)"
  using assms
  by (cases "fst a")
    (auto simp: attempt_def all_greater_than_zero_def set_telDiameter_def set_telFocalLength_def
      set_epFocalLength_def set_barlowFactor_def set_focalReducerFactor_def not_le_zero_greater)

lemma attempt_valid:
  assumes "valid this" and "snd a \<noteq> NaN" and "snd a \<noteq> Infinity"
  shows "valid (attempt this a)"
  using assms
  by (cases "fst a")
    (auto simp: attempt_def valid_def set_telDiameter_def set_telFocalLength_def
      set_epFocalLength_def set_barlowFactor_def set_focalReducerFactor_def
      not_le_zero_greater greater_positive_real)

lemma run_greater:
  assumes "all_greater_than_zero this" and "\<forall>a \<in> set as. snd a \<noteq> NaN"
  shows "all_greater_than_zero (run this as)"
  using assms unfolding run_def
  by (induction as arbitrary: this) (simp_all add: attempt_greater)

lemma run_valid:
  assumes "valid this" and "\<forall>a \<in> set as. snd a \<noteq> NaN" and "\<forall>a \<in> set as. snd a \<noteq> Infinity"
  shows "valid (run this as)"
  using assms unfolding run_def
  by (induction as arbitrary: this) (simp_all add: attempt_valid)

text \<open>
  C3, as the specification states it: in every object obtained by a successful construction
  followed by any sequence of setter invocations, all five fields are strictly positive
  real numbers. \<open>Infinity\<close> is greater than 0, so every check of the class lets it
  through; it is also what \<open>Number\<close> makes of the text \<open>Infinity\<close> in the interface, whose
  only screen is \<open>isNaN\<close>. The constructor accepts \<open>Infinity\<close> as aperture diameter and
  returns an object that does not satisfy the invariant, and assigning \<open>Infinity\<close> to the
  aperture diameter of a valid object leaves that same object.
\<close>

theorem invariant_counterexample:
  "constructor (Number Infinity) (Number (Fin 1000)) (Number (Fin 10)) Undefined Undefined =
     Inr \<lparr>u_telDiameter = Infinity, u_telFocalLength = Fin 1000, u_epFocalLength = Fin 10,
          u_barlowFactor = Fin 1, u_focalReducerFactor = Fin 1\<rparr>
   \<and> \<not> valid \<lparr>u_telDiameter = Infinity, u_telFocalLength = Fin 1000, u_epFocalLength = Fin 10,
          u_barlowFactor = Fin 1, u_focalReducerFactor = Fin 1\<rparr>
   \<and> valid (telescope 200 1000 10 1 1)
   \<and> run (telescope 200 1000 10 1 1) [(TelDiameter, Infinity)] =
     \<lparr>u_telDiameter = Infinity, u_telFocalLength = Fin 1000, u_epFocalLength = Fin 10,
      u_barlowFactor = Fin 1, u_focalReducerFactor = Fin 1\<rparr>"
  by (simp add: constructor_def Let_def valid_def telescope_def run_def attempt_def
      set_telDiameter_def)

text \<open>
  C3, amended. When no value supplied to the constructor or to a setter is \<open>NaN\<close>: in
  every object obtained by a successful construction followed by any sequence of setter
  invocations (successful or failing), every field is greater than 0, that is a strictly
  positive real number or \<open>Infinity\<close>; when moreover no supplied value is \<open>Infinity\<close>, all
  five fields are strictly positive real numbers, after the construction and after the
  whole sequence, and each single invocation of a setter with such a value on an object
  that satisfies the invariant leaves an object that satisfies it.
\<close>

theorem invariant_without_infinity:
  assumes "constructor d f e b r = Inr t"
    and "Number NaN \<notin> set [d, f, e, b, r]" and "\<forall>a \<in> set as. snd a \<noteq> NaN"
  shows "all_greater_than_zero t \<and> all_greater_than_zero (run t as)
    \<and> (Number Infinity \<notin> set [d, f, e, b, r] \<and> (\<forall>a \<in> set as. snd a \<noteq> Infinity)
         \<longrightarrow> valid t \<and> valid (run t as))
    \<and> (valid this \<and> v \<noteq> NaN \<and> v \<noteq> Infinity \<longrightarrow> valid (attempt this (fld, v)))"
proof (intro conjI impI)
  show greater: "all_greater_than_zero t"
    using assms(1,2) by (rule constructor_greater)
  show "all_greater_than_zero (run t as)"
    using greater assms(3) by (rule run_greater)
next
  assume finite: "Number Infinity \<notin> set [d, f, e, b, r] \<and> (\<forall>a \<in> set as. snd a \<noteq> Infinity)"
  then show "valid t"
    using constructor_valid [OF assms(1,2)] by blast
  then show "valid (run t as)"
    using finite assms(3) run_valid by blast
next
  assume "valid this \<and> v \<noteq> NaN \<and> v \<noteq> Infinity"
  then show "valid (attempt this (fld, v))"
    using attempt_valid [of this "(fld, v)"] by simp
qed

theorem invariant_without_infinity_witness:
  "constructor (Number (Fin 200)) (Number (Fin 1000)) (Number (Fin 10)) Undefined Undefined
     = Inr (telescope 200 1000 10 1 1)
   \<and> valid (telescope 200 1000 10 1 1)
   \<and> run (telescope 200 1000 10 1 1)
        [(BarlowFactor, Fin 2), (EpFocalLength, NegInfinity), (TelDiameter, Fin 150)]
      = telescope 150 1000 10 2 1
   \<and> valid (run (telescope 200 1000 10 1 1)
        [(BarlowFactor, Fin 2), (EpFocalLength, NegInfinity), (TelDiameter, Fin 150)])
   \<and> all_greater_than_zero (run (telescope 200 1000 10 1 1)
        [(BarlowFactor, Fin 2), (EpFocalLength, NegInfinity), (TelDiameter, Fin 150)])
   \<and> valid (attempt (telescope 150 1000 10 2 1) (FocalReducerFactor, Fin (1 / 2)))"
proof -
  have c: "constructor (Number (Fin 200)) (Number (Fin 1000)) (Number (Fin 10)) Undefined
      Undefined = Inr (telescope 200 1000 10 1 1)"
    by (simp add: constructor_telescope_default)
  have r: "run (telescope 200 1000 10 1 1)
        [(BarlowFactor, Fin 2), (EpFocalLength, NegInfinity), (TelDiameter, Fin 150)]
      = telescope 150 1000 10 2 1"
    by (simp add: run_def attempt_def telescope_def set_barlowFactor_def set_epFocalLength_def
        set_telDiameter_def)
  show ?thesis
    using invariant_without_infinity [OF c,
        of "[(BarlowFactor, Fin 2), (EpFocalLength, NegInfinity), (TelDiameter, Fin 150)]"
        "telescope 150 1000 10 2 1" "Fin (1 / 2)" FocalReducerFactor] c r
    by (simp add: valid_telescope)
qed

section \<open>Field replacement\<close>

lemma invoke_formula: "invoke c this = (formula c (\<lambda>g. read g this), this)"
  by (cases c)
    (simp_all add: calcMagnification_def calcLowerMagnificationLimit_def
      calcUpperMagnificationLimit_def calcFocalRatio_def calcExitPupil_def calcDawesLimit_def
      get_telDiameter_def get_telFocalLength_def get_epFocalLength_def get_barlowFactor_def
      get_focalReducerFactor_def)

lemma js_lt_zero_not_le: "js_lt (Fin 0) v \<Longrightarrow> \<not> js_le v (Fin 0)"
  by (cases v) simp_all

lemma assign_rejects:
  assumes "js_le v (Fin 0)"
  shows "\<exists>msg. assign fld v this = Inl (RangeError msg)"
  using assms
  by (cases fld)
    (simp_all add: set_telDiameter_def set_telFocalLength_def set_epFocalLength_def
      set_barlowFactor_def set_focalReducerFactor_def)

lemma all_fields:
  "(\<forall>g. P g) \<longleftrightarrow>
     P TelDiameter \<and> P TelFocalLength \<and> P EpFocalLength \<and> P BarlowFactor \<and> P FocalReducerFactor"
  by (metis field.exhaust)

lemma assign_accepts:
  assumes "\<not> js_le v (Fin 0)"
  shows "\<exists>that. assign fld v this = Inr that \<and> (\<lambda>g. read g that) = (\<lambda>g. read g this)(fld := v)"
  using assms
  by (cases fld)
    (simp_all add: fun_eq_iff all_fields set_telDiameter_def set_telFocalLength_def
      set_epFocalLength_def set_barlowFactor_def set_focalReducerFactor_def
      get_telDiameter_def get_telFocalLength_def get_epFocalLength_def get_barlowFactor_def
      get_focalReducerFactor_def)

text \<open>
  C4. For each of the five setters, on every starting state: a new value \<open><= 0\<close> makes the
  setter throw a RangeError (OutOfRange) and the object keeps all five fields, the targeted
  one too; a new value \<open>> 0\<close> replaces the setter's own field and no other, whatever the
  other four fields hold (they are not validated again), and every computation called
  afterwards is the specification's formula over the new value and the four old ones. So,
  after the aperture diameter of an object is replaced by a positive real \<open>x\<close>, the Dawes
  limit is the quotient \<open>116 / x\<close> as JavaScript computes it.
\<close>

theorem setter_frame_effect:
  "(js_le v (Fin 0) \<longrightarrow>
      (\<exists>msg. assign fld v this = Inl (RangeError msg)) \<and> attempt this (fld, v) = this)
   \<and> (js_lt (Fin 0) v \<longrightarrow>
      (\<exists>that. assign fld v this = Inr that \<and> attempt this (fld, v) = that
         \<and> read fld that = v \<and> (\<forall>g. g \<noteq> fld \<longrightarrow> read g that = read g this)
         \<and> (\<forall>c. fst (invoke c that) = formula c ((\<lambda>g. read g this)(fld := v)))))
   \<and> (0 < x \<longrightarrow>
      calcDawesLimit (attempt this (TelDiameter, Fin x)) = js_div (Fin 116) (Fin x))"
proof (intro conjI impI)
  assume le: "js_le v (Fin 0)"
  show "\<exists>msg. assign fld v this = Inl (RangeError msg)"
    using le by (rule assign_rejects)
  then show "attempt this (fld, v) = this"
    by (auto simp: attempt_def)
next
  assume "js_lt (Fin 0) v"
  then have "\<not> js_le v (Fin 0)"
    by (rule js_lt_zero_not_le)
  then obtain that where that: "assign fld v this = Inr that"
    and reads: "(\<lambda>g. read g that) = (\<lambda>g. read g this)(fld := v)"
    using assign_accepts by blast
  have "attempt this (fld, v) = that"
    using that by (simp add: attempt_def)
  moreover have "read fld that = v" and "\<forall>g. g \<noteq> fld \<longrightarrow> read g that = read g this"
    using reads by (auto simp: fun_eq_iff)
  moreover have "\<forall>c. fst (invoke c that) = formula c ((\<lambda>g. read g this)(fld := v))"
    using reads by (simp add: invoke_formula)
  ultimately show "\<exists>that. assign fld v this = Inr that \<and> attempt this (fld, v) = that
         \<and> read fld that = v \<and> (\<forall>g. g \<noteq> fld \<longrightarrow> read g that = read g this)
         \<and> (\<forall>c. fst (invoke c that) = formula c ((\<lambda>g. read g this)(fld := v)))"
    using that by blast
next
  assume "0 < x"
  then show "calcDawesLimit (attempt this (TelDiameter, Fin x)) = js_div (Fin 116) (Fin x)"
    by (simp add: attempt_def set_telDiameter_def calcDawesLimit_def)
qed

theorem setter_frame_effect_witness:
  "js_le (Fin (- 3)) (Fin 0)
   \<and> assign BarlowFactor (Fin (- 3)) (telescope 200 1000 10 2 1)
       = Inl (RangeError ''barlowFactor has to be greater than 0.'')
   \<and> attempt (telescope 200 1000 10 2 1) (BarlowFactor, Fin (- 3)) = telescope 200 1000 10 2 1
   \<and> js_lt (Fin 0) (Fin 116)
   \<and> assign TelDiameter (Fin 116) (telescope 200 1000 10 2 1) = Inr (telescope 116 1000 10 2 1)
   \<and> read TelDiameter (telescope 116 1000 10 2 1) = Fin 116
   \<and> read TelFocalLength (telescope 116 1000 10 2 1) = read TelFocalLength (telescope 200 1000 10 2 1)
   \<and> fst (invoke CalcDawesLimit (telescope 116 1000 10 2 1)) = Fin 1
   \<and> calcDawesLimit (attempt (telescope 200 1000 10 2 1) (TelDiameter, Fin 116)) = Fin 1"
  using setter_frame_effect [of "Fin (- 3)" BarlowFactor "telescope 200 1000 10 2 1" 116]
    setter_frame_effect [of "Fin 116" TelDiameter "telescope 200 1000 10 2 1" 116]
  by (simp add: telescope_def set_barlowFactor_def set_telDiameter_def attempt_def
      get_telDiameter_def get_telFocalLength_def calcDawesLimit_def js_div_Fin round_double_1)

section \<open>Magnitudes and rounding errors\<close>

lemma moderate_between: "moderate x \<longleftrightarrow> pow2_between (- 200) 200 x"
  by (simp add: moderate_def pow2_between_def power_int_minus_divide)

lemma between_pos:
  assumes "pow2_between a b x"
  shows "0 < x"
proof -
  have "(0::real) < 2 powi a" by simp
  then show ?thesis using assms unfolding pow2_between_def by linarith
qed

lemma between_mult:
  assumes "pow2_between a b x" and "pow2_between c d y"
  shows "pow2_between (a + c) (b + d) (x * y)"
proof -
  have "(0::real) < 2 powi a" "(0::real) < 2 powi c" by simp_all
  moreover have "2 powi a \<le> x" "x \<le> 2 powi b" "2 powi c \<le> y" "y \<le> 2 powi d"
    using assms by (simp_all add: pow2_between_def)
  ultimately have "2 powi a * 2 powi c \<le> x * y" and "x * y \<le> 2 powi b * 2 powi d"
    by (intro mult_mono; linarith)+
  then show ?thesis
    by (simp add: pow2_between_def pow2_split)
qed

lemma between_div:
  assumes "pow2_between a b x" and "pow2_between c d y"
  shows "pow2_between (a - d) (b - c) (x / y)"
proof -
  have p: "(0::real) < 2 powi a" "(0::real) < 2 powi c" "(0::real) < 2 powi d" by simp_all
  have xy: "2 powi a \<le> x" "x \<le> 2 powi b" "2 powi c \<le> y" "y \<le> 2 powi d"
    using assms by (simp_all add: pow2_between_def)
  have "2 powi a / 2 powi d \<le> x / y" and "x / y \<le> 2 powi b / 2 powi c"
    using p xy by (intro frac_le; linarith)+
  moreover have "(2::real) powi (a - d) = 2 powi a / 2 powi d"
    and "(2::real) powi (b - c) = 2 powi b / 2 powi c"
    by (simp_all add: power_int_diff)
  ultimately show ?thesis
    by (simp add: pow2_between_def)
qed

lemma rounding_factor_ge: "1 \<le> rounding_factor"
  by (simp add: rounding_factor_def)

lemma rounding_factor_power: "0 \<le> rounding_factor ^ k" "1 \<le> rounding_factor ^ k"
  using rounding_factor_ge by (simp_all add: one_le_power)

lemma near_refl:
  assumes "0 < x"
  shows "near 0 x x"
  using assms by (simp add: near_def)

lemma near_trans:
  assumes "near j x y" and "near k y z"
  shows "near (j + k) x z"
proof -
  define c where "c = rounding_factor"
  have c: "0 \<le> c ^ j" "0 \<le> c ^ k" by (simp_all add: c_def rounding_factor_power)
  have xy: "0 < x" "0 < y" "y \<le> c ^ j * x" "x \<le> c ^ j * y"
    and yz: "0 < z" "z \<le> c ^ k * y" "y \<le> c ^ k * z"
    using assms by (simp_all add: near_def c_def)
  have "z \<le> c ^ k * (c ^ j * x)"
    using yz(2) mult_left_mono [OF xy(3) c(2)] by linarith
  moreover have "x \<le> c ^ j * (c ^ k * z)"
    using xy(4) mult_left_mono [OF yz(3) c(1)] by linarith
  ultimately show ?thesis
    using xy(1) yz(1) by (simp add: near_def c_def [symmetric] power_add mult_ac)
qed

lemma near_mult:
  assumes "near j x x'" and "near k y y'"
  shows "near (j + k) (x * y) (x' * y')"
proof -
  define c where "c = rounding_factor"
  have c: "0 \<le> c ^ j" "0 \<le> c ^ k" by (simp_all add: c_def rounding_factor_power)
  have x: "0 < x" "0 < x'" "x' \<le> c ^ j * x" "x \<le> c ^ j * x'"
    and y: "0 < y" "0 < y'" "y' \<le> c ^ k * y" "y \<le> c ^ k * y'"
    using assms by (simp_all add: near_def c_def)
  have "x' * y' \<le> (c ^ j * x) * (c ^ k * y)"
    using x y by (intro mult_mono) simp_all
  moreover have "x * y \<le> (c ^ j * x') * (c ^ k * y')"
    using x y by (intro mult_mono) simp_all
  ultimately show ?thesis
    using x(1,2) y(1,2) by (simp add: near_def c_def [symmetric] power_add mult_ac)
qed

lemma near_sym:
  assumes "near k x y"
  shows "near k y x"
  using assms by (simp add: near_def)

lemma near_inverse:
  assumes "near k y y'"
  shows "near k (1 / y) (1 / y')"
proof -
  define c where "c = rounding_factor"
  have y: "0 < y" "0 < y'" "y' \<le> c ^ k * y" "y \<le> c ^ k * y'"
    using assms by (simp_all add: near_def c_def)
  have "1 / y' \<le> c ^ k * (1 / y)" and "1 / y \<le> c ^ k * (1 / y')"
    using y by (simp_all add: field_simps)
  then show ?thesis
    using y(1,2) by (simp add: near_def c_def [symmetric])
qed

lemma near_div:
  assumes "near j x x'" and "near k y y'"
  shows "near (j + k) (x / y) (x' / y')"
  using near_mult [OF assms(1) near_inverse [OF assms(2)]] by simp

lemma near_round:
  assumes "0 < x" and "0 < y" and "\<bar>y - x\<bar> \<le> x / 2 ^ 53"
  shows "near 1 x y"
proof -
  have "y \<le> x + x / 2 ^ 53" and lower: "x - x / 2 ^ 53 \<le> y"
    using assms(3) by linarith+
  then have "y \<le> rounding_factor * x"
    using assms(1) by (simp add: rounding_factor_def field_simps)
  then have up: "y \<le> rounding_factor ^ 1 * x"
    by simp
  have "x \<le> rounding_factor * (x - x / 2 ^ 53)"
    using assms(1) by (simp add: rounding_factor_def field_simps)
  moreover have "rounding_factor * (x - x / 2 ^ 53) \<le> rounding_factor * y"
    using lower rounding_factor_ge by (intro mult_left_mono) simp_all
  ultimately have "x \<le> rounding_factor * y"
    by (rule order_trans)
  then have down: "x \<le> rounding_factor ^ 1 * y"
    by simp
  show ?thesis
    unfolding near_def using assms(1,2) up down by blast
qed

lemma near_error:
  assumes "near k x y" and "rounding_factor ^ k \<le> 1 + eps"
  shows "\<bar>y - x\<bar> \<le> eps * x"
proof -
  define c where "c = rounding_factor ^ k"
  have xy: "0 < x" "0 < y" "y \<le> c * x" "x \<le> c * y"
    using assms(1) by (simp_all add: near_def c_def)
  have c: "c \<le> 1 + eps"
    using assms(2) by (simp add: c_def)
  have "c * x \<le> (1 + eps) * x" and "c * y \<le> (1 + eps) * y"
    using c xy(1,2) by (intro mult_right_mono; simp)+
  then have up: "y - x \<le> eps * x" and down: "x - y \<le> eps * y"
    using xy(3,4) by (simp_all add: algebra_simps)
  have "1 \<le> c"
    by (simp add: c_def rounding_factor_power)
  then have "0 \<le> eps"
    using c by linarith
  show ?thesis
  proof (cases "x \<le> y")
    case True
    then show ?thesis using up by simp
  next
    case False
    then have "eps * y \<le> eps * x"
      using \<open>0 \<le> eps\<close> by (intro mult_left_mono) simp_all
    then show ?thesis using down False by simp
  qed
qed

lemma rounding_errors:
  "rounding_factor ^ 1 \<le> 1 + 1 / 2 ^ 52"
  "rounding_factor ^ 3 \<le> 1 + 1 / 2 ^ 50"
  "rounding_factor ^ 4 \<le> 1 + 1 / 2 ^ 49"
  "rounding_factor ^ 5 \<le> 1 + 1 / 2 ^ 49"
  "rounding_factor ^ 6 \<le> 1 + 1 / 2 ^ 49"
  by (simp_all add: rounding_factor_def power_divide)

lemma round_double_between:
  assumes "pow2_between a b x" and "- 1022 \<le> a" and "b \<le> 1023"
  shows "\<exists>z. round_double x = Fin z \<and> pow2_between a b z \<and> near 1 x z"
proof -
  from assms obtain z where z: "round_double x = Fin z" "2 powi a \<le> z" "z \<le> 2 powi b"
    "\<bar>z - x\<bar> \<le> x / 2 ^ 53"
    using round_double_range [of a x b] unfolding pow2_between_def by blast
  have "pow2_between a b z"
    using z(2,3) by (simp add: pow2_between_def)
  moreover from this have "near 1 x z"
    using between_pos [OF assms(1)] between_pos z(4) by (intro near_round) blast+
  ultimately show ?thesis using z(1) by blast
qed

lemma js_mul_between:
  assumes "pow2_between a b x" and "pow2_between c d y"
    and "- 1022 \<le> a + c" and "b + d \<le> 1023"
  shows "\<exists>z. js_mul (Fin x) (Fin y) = Fin z \<and> pow2_between (a + c) (b + d) z \<and> near 1 (x * y) z"
proof -
  have "x \<noteq> 0" "y \<noteq> 0"
    using between_pos [OF assms(1)] between_pos [OF assms(2)] by simp_all
  then have "js_mul (Fin x) (Fin y) = round_double (x * y)"
    by (rule js_mul_Fin)
  then show ?thesis
    using round_double_between [OF between_mult [OF assms(1,2)] assms(3,4)] by simp
qed

lemma js_div_between:
  assumes "pow2_between a b x" and "pow2_between c d y"
    and "- 1022 \<le> a - d" and "b - c \<le> 1023"
  shows "\<exists>z. js_div (Fin x) (Fin y) = Fin z \<and> pow2_between (a - d) (b - c) z \<and> near 1 (x / y) z"
proof -
  have "x \<noteq> 0" "y \<noteq> 0"
    using between_pos [OF assms(1)] between_pos [OF assms(2)] by simp_all
  then have "js_div (Fin x) (Fin y) = round_double (x / y)"
    by (rule js_div_Fin)
  then show ?thesis
    using round_double_between [OF between_div [OF assms(1,2)] assms(3,4)] by simp
qed

section \<open>Derived computations\<close>

text \<open>
  By \<open>valid_is_telescope\<close> the objects that satisfy the invariant are the objects
  \<open>telescope d f e b r\<close> with five positive reals, and the theorems below are stated on
  these.
\<close>

lemma round_double_numeral:
  assumes "(numeral n :: int) < 2 ^ 53"
  shows "round_double (numeral n) = Fin (numeral n)"
  using round_double_of_int [of "numeral n"] assms by simp

lemma round_double_value:
  assumes "2 powi e \<le> x" and "x < 2 powi (e + 1)" and "- 1022 \<le> e" and "e \<le> 1022"
    and "round_half_even (x / 2 powi (e - 52)) = n"
  shows "round_double x = Fin (of_int n * 2 powi (e - 52))"
proof -
  have "(2::real) powi (e + 1) \<le> 2 powi 1023"
    using assms(4) by (intro power_int_increasing) simp_all
  then have "x < overflow_threshold"
    using assms(2) overflow_threshold_gt by linarith
  then show ?thesis
    using round_double_eval(1) [OF assms(1-3)] assms(5) by simp
qed

lemma calc_telescope:
  "calcMagnification (telescope d f e b r) = js_div (js_mul (js_mul (Fin b) (Fin f)) (Fin r)) (Fin e)"
  "calcLowerMagnificationLimit (telescope d f e b r) = js_div (Fin d) (Fin 6)"
  "calcUpperMagnificationLimit (telescope d f e b r) = js_mul (Fin 2) (Fin d)"
  "calcFocalRatio (telescope d f e b r) = js_mul (js_div (js_mul (Fin b) (Fin f)) (Fin d)) (Fin r)"
  "calcExitPupil (telescope d f e b r) =
     js_div (Fin d) (js_div (js_mul (js_mul (Fin b) (Fin f)) (Fin r)) (Fin e))"
  "calcDawesLimit (telescope d f e b r) = js_div (Fin 116) (Fin d)"
  by (simp_all add: calcMagnification_def calcLowerMagnificationLimit_def
      calcUpperMagnificationLimit_def calcFocalRatio_def calcExitPupil_def calcDawesLimit_def
      telescope_def)

lemma attempt_telescope:
  assumes "0 < x"
  shows "attempt (telescope d f e b r) (fld, Fin x) =
    (case fld of TelDiameter \<Rightarrow> telescope x f e b r | TelFocalLength \<Rightarrow> telescope d x e b r
     | EpFocalLength \<Rightarrow> telescope d f x b r | BarlowFactor \<Rightarrow> telescope d f e x r
     | FocalReducerFactor \<Rightarrow> telescope d f e b x)"
  using assms
  by (cases fld)
    (simp_all add: attempt_def telescope_def set_telDiameter_def set_telFocalLength_def
      set_epFocalLength_def set_barlowFactor_def set_focalReducerFactor_def)

text \<open>
  The six results on an object with moderate fields: each is a positive real, a few
  roundings away from the value of its formula over the reals.
\<close>

lemma moderate_magnification:
  assumes "moderate f" and "moderate e" and "moderate b" and "moderate r"
  shows "\<exists>p1 p2 m. js_mul (Fin b) (Fin f) = Fin p1 \<and> pow2_between (- 400) 400 p1
      \<and> near 1 (b * f) p1
      \<and> js_mul (Fin p1) (Fin r) = Fin p2 \<and> near 1 (p1 * r) p2
      \<and> calcMagnification (telescope d f e b r) = Fin m \<and> pow2_between (- 800) 800 m
      \<and> near 1 (p2 / e) m \<and> near 3 (b * f * r / e) m"
proof -
  note m = assms [unfolded moderate_between]
  obtain p1 where p1: "js_mul (Fin b) (Fin f) = Fin p1" "pow2_between (- 400) 400 p1"
    "near 1 (b * f) p1"
    using js_mul_between [OF m(3) m(1)] by auto
  obtain p2 where p2: "js_mul (Fin p1) (Fin r) = Fin p2" "pow2_between (- 600) 600 p2"
    "near 1 (p1 * r) p2"
    using js_mul_between [OF p1(2) m(4)] by auto
  obtain q where q: "js_div (Fin p2) (Fin e) = Fin q" "pow2_between (- 800) 800 q"
    "near 1 (p2 / e) q"
    using js_div_between [OF p2(2) m(2)] by auto
  have r: "near 0 r r" and e: "near 0 e e"
    using between_pos [OF m(4)] between_pos [OF m(2)] by (simp_all add: near_refl)
  have "near 2 (b * f * r) p2"
    using near_trans [OF near_mult [OF p1(3) r] p2(3)] by (simp add: eval_nat_numeral)
  then have "near 3 (b * f * r / e) q"
    using near_trans [OF near_div [OF _ e] q(3), of 2 "b * f * r"] by (simp add: eval_nat_numeral)
  then show ?thesis
    using p1 p2 q by (auto simp: calc_telescope)
qed

lemma moderate_focal_ratio:
  assumes "moderate d" and "moderate f" and "moderate b" and "moderate r"
  shows "\<exists>p1 q fr. js_mul (Fin b) (Fin f) = Fin p1 \<and> js_div (Fin p1) (Fin d) = Fin q
      \<and> near 1 (p1 / d) q
      \<and> calcFocalRatio (telescope d f e b r) = Fin fr \<and> pow2_between (- 800) 800 fr
      \<and> near 1 (q * r) fr \<and> near 2 (p1 / d * r) fr \<and> near 3 (b * f / d * r) fr"
proof -
  note m = assms [unfolded moderate_between]
  obtain p1 where p1: "js_mul (Fin b) (Fin f) = Fin p1" "pow2_between (- 400) 400 p1"
    "near 1 (b * f) p1"
    using js_mul_between [OF m(3) m(2)] by auto
  obtain q where q: "js_div (Fin p1) (Fin d) = Fin q" "pow2_between (- 600) 600 q"
    "near 1 (p1 / d) q"
    using js_div_between [OF p1(2) m(1)] by auto
  obtain fr where fr: "js_mul (Fin q) (Fin r) = Fin fr" "pow2_between (- 800) 800 fr"
    "near 1 (q * r) fr"
    using js_mul_between [OF q(2) m(4)] by auto
  have r: "near 0 r r" and d: "near 0 d d"
    using between_pos [OF m(4)] between_pos [OF m(1)] by (simp_all add: near_refl)
  have two: "near 2 (p1 / d * r) fr"
    using near_trans [OF near_mult [OF q(3) r] fr(3)] by (simp add: eval_nat_numeral)
  have "near 2 (b * f / d) q"
    using near_trans [OF near_div [OF p1(3) d] q(3)] by (simp add: eval_nat_numeral)
  then have "near 3 (b * f / d * r) fr"
    using near_trans [OF near_mult [OF _ r] fr(3), of 2 "b * f / d"] by (simp add: eval_nat_numeral)
  then show ?thesis
    using p1 q fr two by (auto simp: calc_telescope)
qed

lemma moderate_exit_pupil:
  assumes "moderate d" and "moderate f" and "moderate e" and "moderate b" and "moderate r"
  shows "\<exists>p1 m ep. js_mul (Fin b) (Fin f) = Fin p1
      \<and> calcMagnification (telescope d f e b r) = Fin m
      \<and> calcExitPupil (telescope d f e b r) = Fin ep \<and> pow2_between (- 1000) 1000 ep
      \<and> near 3 (d / (p1 * r / e)) ep \<and> near 4 (d / (b * f * r / e)) ep"
proof -
  note md = assms(1) [unfolded moderate_between]
  note me = assms(3) [unfolded moderate_between]
  note mr = assms(5) [unfolded moderate_between]
  obtain p1 p2 m where p1: "js_mul (Fin b) (Fin f) = Fin p1"
    and p2: "near 1 (p1 * r) p2"
    and m: "calcMagnification (telescope d f e b r) = Fin m" "pow2_between (- 800) 800 m"
      "near 1 (p2 / e) m" "near 3 (b * f * r / e) m"
    using moderate_magnification [OF assms(2-5)] by blast
  obtain ep where ep: "js_div (Fin d) (Fin m) = Fin ep" "pow2_between (- 1000) 1000 ep"
    "near 1 (d / m) ep"
    using js_div_between [OF md m(2)] by auto
  have d: "near 0 d d" and e: "near 0 e e"
    using between_pos [OF md] between_pos [OF me] by (simp_all add: near_refl)
  have "near 2 (p1 * r / e) m"
    using near_trans [OF near_div [OF p2 e] m(3)] by (simp add: eval_nat_numeral)
  then have three: "near 3 (d / (p1 * r / e)) ep"
    using near_trans [OF near_div [OF d] ep(3), of 2 "p1 * r / e"] by (simp add: eval_nat_numeral)
  have four: "near 4 (d / (b * f * r / e)) ep"
    using near_trans [OF near_div [OF d m(4)] ep(3)] by (simp add: eval_nat_numeral)
  have "calcExitPupil (telescope d f e b r) = Fin ep"
    using ep(1) m(1) by (simp add: calcExitPupil_def telescope_def)
  then show ?thesis
    using p1 m(1) ep(2) three four by blast
qed

lemma moderate_aperture_only:
  assumes "moderate d"
  shows "\<exists>lo up dl. calcLowerMagnificationLimit (telescope d f e b r) = Fin lo \<and> near 1 (d / 6) lo
      \<and> calcUpperMagnificationLimit (telescope d f e b r) = Fin up \<and> near 1 (2 * d) up
      \<and> calcDawesLimit (telescope d f e b r) = Fin dl \<and> near 1 (116 / d) dl"
proof -
  note md = assms [unfolded moderate_between]
  have six: "pow2_between 2 3 6" and two: "pow2_between 1 1 2" and c: "pow2_between 6 7 116"
    by (simp_all add: pow2_between_def)
  obtain lo where "js_div (Fin d) (Fin 6) = Fin lo" "near 1 (d / 6) lo"
    using js_div_between [OF md six] by auto
  moreover obtain up where "js_mul (Fin 2) (Fin d) = Fin up" "near 1 (2 * d) up"
    using js_mul_between [OF two md] by auto
  moreover obtain dl where "js_div (Fin 116) (Fin d) = Fin dl" "near 1 (116 / d) dl"
    using js_div_between [OF c md] by auto
  ultimately show ?thesis
    by (auto simp: calc_telescope)
qed

lemma near_positive:
  assumes "near k x y"
  shows "0 < y"
  using assms by (simp add: near_def)

lemma near_bound:
  assumes "near k x y" and "rounding_factor ^ k \<le> 1 + 1 / 2 ^ n"
  shows "\<bar>y - x\<bar> \<le> x / 2 ^ n"
  using near_error [OF assms] by simp

lemma round_double_200_6: "round_double (200 / 6) = Fin (4691249611844267 / 2 ^ 47)"
  using round_double_value [of 5 "200 / 6" 4691249611844267]
  by (simp add: round_half_even_def Let_def)

lemma lower_limit_200:
  "calcLowerMagnificationLimit (telescope 200 f e b r) = Fin (4691249611844267 / 2 ^ 47)"
proof -
  have "calcLowerMagnificationLimit (telescope 200 f e b r) = round_double (200 / 6)"
    unfolding calc_telescope by (rule js_div_Fin) simp_all
  then show ?thesis
    by (simp only: round_double_200_6)
qed

lemma exit_pupil_after_assignment:
  assumes "js_lt (Fin 0) v"
  shows "calcExitPupil (attempt this (fld, v)) = formula CalcExitPupil ((\<lambda>g. read g this)(fld := v))"
proof -
  have "\<not> js_le v (Fin 0)"
    using assms by (rule js_lt_zero_not_le)
  then obtain that where that: "assign fld v this = Inr that"
    and reads: "(\<lambda>g. read g that) = (\<lambda>g. read g this)(fld := v)"
    using assign_accepts by blast
  have "attempt this (fld, v) = that"
    using that by (simp add: attempt_def)
  moreover have "calcExitPupil that = fst (invoke CalcExitPupil that)"
    by simp
  ultimately show ?thesis
    using reads by (simp only: invoke_formula fst_conv)
qed

text \<open>
  C5. On every valid state the magnification is
  \<open>barlowFactor * focalLength * focalReducerFactor / eyepieceFocalLength\<close>, the two
  products and the quotient being JavaScript's, taken from the left. When the four fields
  it reads are moderate, the result is a real within \<open>2 ^ - 50\<close> (relative) of the value
  of the formula over the reals. For \<open>d = 200\<close>, \<open>f = 1000\<close>, \<open>e = 10\<close>, \<open>b = 1\<close>,
  \<open>r = 1\<close> it is exactly 100.
\<close>

theorem magnification_formula:
  assumes "valid (telescope d f e b r)"
  shows "calcMagnification (telescope d f e b r)
      = js_div (js_mul (js_mul (Fin b) (Fin f)) (Fin r)) (Fin e)
    \<and> (moderate f \<and> moderate e \<and> moderate b \<and> moderate r \<longrightarrow>
         (\<exists>m. calcMagnification (telescope d f e b r) = Fin m
            \<and> \<bar>m - b * f * r / e\<bar> \<le> (b * f * r / e) / 2 ^ 50))
    \<and> constructor (Number (Fin 200)) (Number (Fin 1000)) (Number (Fin 10)) (Number (Fin 1))
        (Number (Fin 1)) = Inr (telescope 200 1000 10 1 1)
    \<and> calcMagnification (telescope 200 1000 10 1 1) = Fin 100"
proof (intro conjI impI)
  show "calcMagnification (telescope d f e b r)
      = js_div (js_mul (js_mul (Fin b) (Fin f)) (Fin r)) (Fin e)"
    by (rule calc_telescope)
next
  assume "moderate f \<and> moderate e \<and> moderate b \<and> moderate r"
  then obtain m where "calcMagnification (telescope d f e b r) = Fin m"
    and "near 3 (b * f * r / e) m"
    using moderate_magnification [of f e b r d] by blast
  then show "\<exists>m. calcMagnification (telescope d f e b r) = Fin m
            \<and> \<bar>m - b * f * r / e\<bar> \<le> (b * f * r / e) / 2 ^ 50"
    using near_bound [OF _ rounding_errors(2)] by blast
next
  show "constructor (Number (Fin 200)) (Number (Fin 1000)) (Number (Fin 10)) (Number (Fin 1))
        (Number (Fin 1)) = Inr (telescope 200 1000 10 1 1)"
    by (simp add: constructor_telescope)
next
  show "calcMagnification (telescope 200 1000 10 1 1) = Fin 100"
    by (simp add: calc_telescope js_mul_Fin js_div_Fin round_double_numeral)
qed

theorem magnification_formula_witness:
  "valid (telescope 150 750 25 2 (1 / 2))
   \<and> calcMagnification (telescope 150 750 25 2 (1 / 2))
      = js_div (js_mul (js_mul (Fin 2) (Fin 750)) (Fin (1 / 2))) (Fin 25)
   \<and> moderate 750 \<and> moderate 25 \<and> moderate 2 \<and> moderate (1 / 2)
   \<and> (\<exists>m. calcMagnification (telescope 150 750 25 2 (1 / 2)) = Fin m
          \<and> \<bar>m - 2 * 750 * (1 / 2) / 25\<bar> \<le> (2 * 750 * (1 / 2) / 25) / 2 ^ 50)
   \<and> calcMagnification (telescope 200 1000 10 1 1) = Fin 100"
proof -
  have v: "valid (telescope 150 750 25 2 (1 / 2))"
    by (simp add: valid_telescope)
  have m: "moderate 750 \<and> moderate 25 \<and> moderate 2 \<and> moderate (1 / 2)"
    by (simp add: moderate_def)
  show ?thesis
    using v m magnification_formula [OF v] by blast
qed

text \<open>
  C6. On every valid state the exit pupil is the aperture diameter divided by the
  magnification, and the magnification is that of the fields as they are when the method
  is called: after any field is assigned a value greater than 0, the exit pupil is the
  specification's formula over the new value and the four old ones. When the five fields
  are moderate, the result is a real within \<open>2 ^ - 49\<close> (relative) of
  \<open>d / (b * f * r / e)\<close> over the reals. For \<open>d = 200\<close>, \<open>f = 1000\<close>, \<open>e = 10\<close> and the
  default factors it is exactly 2.
\<close>

theorem exit_pupil_formula:
  assumes "valid (telescope d f e b r)"
  shows "calcExitPupil (telescope d f e b r)
      = js_div (get_telDiameter (telescope d f e b r)) (calcMagnification (telescope d f e b r))
    \<and> (js_lt (Fin 0) v \<longrightarrow>
         calcExitPupil (attempt (telescope d f e b r) (fld, v))
           = formula CalcExitPupil ((\<lambda>g. read g (telescope d f e b r))(fld := v)))
    \<and> (moderate d \<and> moderate f \<and> moderate e \<and> moderate b \<and> moderate r \<longrightarrow>
         (\<exists>p. calcExitPupil (telescope d f e b r) = Fin p
            \<and> \<bar>p - d / (b * f * r / e)\<bar> \<le> (d / (b * f * r / e)) / 2 ^ 49))
    \<and> constructor (Number (Fin 200)) (Number (Fin 1000)) (Number (Fin 10)) Undefined Undefined
        = Inr (telescope 200 1000 10 1 1)
    \<and> calcExitPupil (telescope 200 1000 10 1 1) = Fin 2"
proof (intro conjI impI)
  show "calcExitPupil (telescope d f e b r)
      = js_div (get_telDiameter (telescope d f e b r)) (calcMagnification (telescope d f e b r))"
    by (simp add: calcExitPupil_def get_telDiameter_def)
next
  assume "js_lt (Fin 0) v"
  then show "calcExitPupil (attempt (telescope d f e b r) (fld, v))
           = formula CalcExitPupil ((\<lambda>g. read g (telescope d f e b r))(fld := v))"
    by (rule exit_pupil_after_assignment)
next
  assume "moderate d \<and> moderate f \<and> moderate e \<and> moderate b \<and> moderate r"
  then obtain p where "calcExitPupil (telescope d f e b r) = Fin p"
    and "near 4 (d / (b * f * r / e)) p"
    using moderate_exit_pupil [of d f e b r] by blast
  then show "\<exists>p. calcExitPupil (telescope d f e b r) = Fin p
            \<and> \<bar>p - d / (b * f * r / e)\<bar> \<le> (d / (b * f * r / e)) / 2 ^ 49"
    using near_bound [OF _ rounding_errors(3)] by blast
next
  show "constructor (Number (Fin 200)) (Number (Fin 1000)) (Number (Fin 10)) Undefined Undefined
        = Inr (telescope 200 1000 10 1 1)"
    by (simp add: constructor_telescope_default)
next
  show "calcExitPupil (telescope 200 1000 10 1 1) = Fin 2"
    by (simp add: calc_telescope js_mul_Fin js_div_Fin round_double_numeral)
qed

theorem exit_pupil_formula_witness:
  "valid (telescope 200 1000 10 1 1)
   \<and> calcExitPupil (telescope 200 1000 10 1 1) = Fin 2
   \<and> js_lt (Fin 0) (Fin 20)
   \<and> attempt (telescope 200 1000 10 1 1) (EpFocalLength, Fin 20) = telescope 200 1000 20 1 1
   \<and> calcExitPupil (telescope 200 1000 20 1 1)
       = formula CalcExitPupil ((\<lambda>g. read g (telescope 200 1000 10 1 1))(EpFocalLength := Fin 20))
   \<and> calcExitPupil (telescope 200 1000 20 1 1) = Fin 4
   \<and> moderate 200 \<and> moderate 1000 \<and> moderate 10 \<and> moderate 1
   \<and> (\<exists>p. calcExitPupil (telescope 200 1000 10 1 1) = Fin p
          \<and> \<bar>p - 200 / (1 * 1000 * 1 / 10)\<bar> \<le> (200 / (1 * 1000 * 1 / 10)) / 2 ^ 49)"
proof -
  have v: "valid (telescope 200 1000 10 1 1)"
    by (simp add: valid_telescope)
  have g: "js_lt (Fin 0) (Fin 20)"
    by simp
  have a: "attempt (telescope 200 1000 10 1 1) (EpFocalLength, Fin 20) = telescope 200 1000 20 1 1"
    by (simp add: attempt_telescope)
  have m: "moderate 200 \<and> moderate 1000 \<and> moderate 10 \<and> moderate 1"
    by (simp add: moderate_def)
  have four: "calcExitPupil (telescope 200 1000 20 1 1) = Fin 4"
    by (simp add: calc_telescope js_mul_Fin js_div_Fin round_double_numeral)
  show ?thesis
    using v g a m four exit_pupil_formula [OF v, of "Fin 20" EpFocalLength, unfolded a] by blast
qed

text \<open>
  C7. On every valid state the focal ratio is
  \<open>(barlowFactor * focalLength / apertureDiameter) * focalReducerFactor\<close>, the operations
  being JavaScript's. When the four fields it reads are moderate, the result is a real
  within \<open>2 ^ - 50\<close> (relative) of the value of the formula over the reals. For
  \<open>d = 200\<close>, \<open>f = 1000\<close>, \<open>b = 2\<close>, \<open>r = 0.5\<close> and any positive \<open>e\<close> it is exactly 5.
\<close>

theorem focal_ratio_formula:
  assumes "valid (telescope d f e b r)"
  shows "calcFocalRatio (telescope d f e b r)
      = js_mul (js_div (js_mul (Fin b) (Fin f)) (Fin d)) (Fin r)
    \<and> (moderate d \<and> moderate f \<and> moderate b \<and> moderate r \<longrightarrow>
         (\<exists>q. calcFocalRatio (telescope d f e b r) = Fin q
            \<and> \<bar>q - b * f / d * r\<bar> \<le> (b * f / d * r) / 2 ^ 50))
    \<and> constructor (Number (Fin 200)) (Number (Fin 1000)) (Number (Fin e)) (Number (Fin 2))
        (Number (Fin (1 / 2))) = Inr (telescope 200 1000 e 2 (1 / 2))
    \<and> calcFocalRatio (telescope 200 1000 e 2 (1 / 2)) = Fin 5"
proof (intro conjI impI)
  show "calcFocalRatio (telescope d f e b r)
      = js_mul (js_div (js_mul (Fin b) (Fin f)) (Fin d)) (Fin r)"
    by (rule calc_telescope)
next
  assume "moderate d \<and> moderate f \<and> moderate b \<and> moderate r"
  then obtain q where "calcFocalRatio (telescope d f e b r) = Fin q"
    and "near 3 (b * f / d * r) q"
    using moderate_focal_ratio [of d f b r e] by blast
  then show "\<exists>q. calcFocalRatio (telescope d f e b r) = Fin q
            \<and> \<bar>q - b * f / d * r\<bar> \<le> (b * f / d * r) / 2 ^ 50"
    using near_bound [OF _ rounding_errors(2)] by blast
next
  show "constructor (Number (Fin 200)) (Number (Fin 1000)) (Number (Fin e)) (Number (Fin 2))
        (Number (Fin (1 / 2))) = Inr (telescope 200 1000 e 2 (1 / 2))"
    using assms by (simp add: valid_telescope constructor_telescope)
next
  show "calcFocalRatio (telescope 200 1000 e 2 (1 / 2)) = Fin 5"
    by (simp add: calc_telescope js_mul_Fin js_div_Fin round_double_numeral)
qed

theorem focal_ratio_formula_witness:
  "valid (telescope 200 1000 10 2 (1 / 2))
   \<and> calcFocalRatio (telescope 200 1000 10 2 (1 / 2)) = Fin 5
   \<and> moderate 200 \<and> moderate 1000 \<and> moderate 2 \<and> moderate (1 / 2)
   \<and> (\<exists>q. calcFocalRatio (telescope 200 1000 10 2 (1 / 2)) = Fin q
          \<and> \<bar>q - 2 * 1000 / 200 * (1 / 2)\<bar> \<le> (2 * 1000 / 200 * (1 / 2)) / 2 ^ 50)"
proof -
  have v: "valid (telescope 200 1000 10 2 (1 / 2))"
    by (simp add: valid_telescope)
  have m: "moderate 200 \<and> moderate 1000 \<and> moderate 2 \<and> moderate (1 / 2)"
    by (simp add: moderate_def)
  show ?thesis
    using v m focal_ratio_formula [OF v] by blast
qed

text \<open>
  C8. On every valid state the lower magnification limit is \<open>apertureDiameter / 6\<close>, the
  upper limit \<open>2 * apertureDiameter\<close> and the Dawes limit \<open>116 / apertureDiameter\<close>, each
  one operation of JavaScript; two objects with the same aperture diameter give the same
  three results, whatever their other fields. When the aperture is moderate, each result
  is a real within \<open>2 ^ - 52\<close> (relative) of the value over the reals. For \<open>d = 200\<close> the
  lower limit is the binary64 value \<open>4691249611844267 / 2 ^ 47\<close>, which is 33.33 to two
  decimals, and the upper limit is 400; for \<open>d = 116\<close> the Dawes limit is exactly 1.
\<close>

theorem aperture_only_formulas:
  assumes "valid (telescope d f e b r)"
  shows "calcLowerMagnificationLimit (telescope d f e b r) = js_div (Fin d) (Fin 6)
    \<and> calcUpperMagnificationLimit (telescope d f e b r) = js_mul (Fin 2) (Fin d)
    \<and> calcDawesLimit (telescope d f e b r) = js_div (Fin 116) (Fin d)
    \<and> (get_telDiameter this = get_telDiameter that \<longrightarrow>
         calcLowerMagnificationLimit this = calcLowerMagnificationLimit that
         \<and> calcUpperMagnificationLimit this = calcUpperMagnificationLimit that
         \<and> calcDawesLimit this = calcDawesLimit that)
    \<and> (moderate d \<longrightarrow>
         (\<exists>lo up dl. calcLowerMagnificationLimit (telescope d f e b r) = Fin lo
            \<and> \<bar>lo - d / 6\<bar> \<le> (d / 6) / 2 ^ 52
            \<and> calcUpperMagnificationLimit (telescope d f e b r) = Fin up
            \<and> \<bar>up - 2 * d\<bar> \<le> (2 * d) / 2 ^ 52
            \<and> calcDawesLimit (telescope d f e b r) = Fin dl
            \<and> \<bar>dl - 116 / d\<bar> \<le> (116 / d) / 2 ^ 52))
    \<and> (\<exists>x. calcLowerMagnificationLimit (telescope 200 f e b r) = Fin x
          \<and> x = 4691249611844267 / 2 ^ 47 \<and> two_decimals x = 3333 / 100)
    \<and> calcUpperMagnificationLimit (telescope 200 f e b r) = Fin 400
    \<and> calcDawesLimit (telescope 116 f e b r) = Fin 1"
proof -
  have formulas: "calcLowerMagnificationLimit (telescope d f e b r) = js_div (Fin d) (Fin 6)"
    "calcUpperMagnificationLimit (telescope d f e b r) = js_mul (Fin 2) (Fin d)"
    "calcDawesLimit (telescope d f e b r) = js_div (Fin 116) (Fin d)"
    by (rule calc_telescope)+
  have same: "calcLowerMagnificationLimit this = calcLowerMagnificationLimit that
         \<and> calcUpperMagnificationLimit this = calcUpperMagnificationLimit that
         \<and> calcDawesLimit this = calcDawesLimit that"
    if "get_telDiameter this = get_telDiameter that"
    using that
    by (simp add: calcLowerMagnificationLimit_def calcUpperMagnificationLimit_def
        calcDawesLimit_def get_telDiameter_def)
  have accurate: "\<exists>lo up dl. calcLowerMagnificationLimit (telescope d f e b r) = Fin lo
            \<and> \<bar>lo - d / 6\<bar> \<le> (d / 6) / 2 ^ 52
            \<and> calcUpperMagnificationLimit (telescope d f e b r) = Fin up
            \<and> \<bar>up - 2 * d\<bar> \<le> (2 * d) / 2 ^ 52
            \<and> calcDawesLimit (telescope d f e b r) = Fin dl
            \<and> \<bar>dl - 116 / d\<bar> \<le> (116 / d) / 2 ^ 52" if md: "moderate d"
  proof -
    obtain lo up dl where "calcLowerMagnificationLimit (telescope d f e b r) = Fin lo"
      "near 1 (d / 6) lo" "calcUpperMagnificationLimit (telescope d f e b r) = Fin up"
      "near 1 (2 * d) up" "calcDawesLimit (telescope d f e b r) = Fin dl" "near 1 (116 / d) dl"
      using moderate_aperture_only [OF md, of f e b r] by blast
    then show ?thesis
      using near_bound [OF _ rounding_errors(1)] by blast
  qed
  have "\<lfloor>(4691249611844267 / 2 ^ 47 :: real) * 100 + 1 / 2\<rfloor> = 3333"
    by (simp add: floor_eq_iff)
  then have "two_decimals (4691249611844267 / 2 ^ 47) = 3333 / 100"
    by (simp add: two_decimals_def)
  then have lower: "\<exists>x. calcLowerMagnificationLimit (telescope 200 f e b r) = Fin x
          \<and> x = 4691249611844267 / 2 ^ 47 \<and> two_decimals x = 3333 / 100"
    using lower_limit_200 [of f e b r] by blast
  have upper: "calcUpperMagnificationLimit (telescope 200 f e b r) = Fin 400"
    and dawes: "calcDawesLimit (telescope 116 f e b r) = Fin 1"
    by (simp_all add: calc_telescope js_mul_Fin js_div_Fin round_double_numeral round_double_1)
  show ?thesis
    using formulas same accurate lower upper dawes by blast
qed

theorem aperture_only_formulas_witness:
  "valid (telescope 200 1000 10 1 1)
   \<and> calcLowerMagnificationLimit (telescope 200 1000 10 1 1) = js_div (Fin 200) (Fin 6)
   \<and> calcLowerMagnificationLimit (telescope 200 1000 10 1 1) = Fin (4691249611844267 / 2 ^ 47)
   \<and> calcUpperMagnificationLimit (telescope 200 1000 10 1 1) = Fin 400
   \<and> get_telDiameter (telescope 200 1000 10 1 1) = get_telDiameter (telescope 200 750 25 2 3)
   \<and> calcDawesLimit (telescope 200 1000 10 1 1) = calcDawesLimit (telescope 200 750 25 2 3)
   \<and> moderate 200
   \<and> (\<exists>dl. calcDawesLimit (telescope 200 1000 10 1 1) = Fin dl
          \<and> \<bar>dl - 116 / 200\<bar> \<le> (116 / 200) / 2 ^ 52)"
proof -
  have v: "valid (telescope 200 1000 10 1 1)"
    by (simp add: valid_telescope)
  have g: "get_telDiameter (telescope 200 1000 10 1 1) = get_telDiameter (telescope 200 750 25 2 3)"
    by (simp add: get_telDiameter_def telescope_def)
  have m: "moderate 200"
    by (simp add: moderate_def)
  show ?thesis
    using v g m aperture_only_formulas [OF v, of "telescope 200 1000 10 1 1"
        "telescope 200 750 25 2 3"]
    by blast
qed

section \<open>Overflow, underflow and rounding\<close>

lemma round_double_nonneg:
  assumes "0 < x"
  shows "nonneg_or_infinity (round_double x)"
  using round_double_pos [OF assms] by auto

lemma js_mul_nonneg:
  assumes "nonneg_or_infinity v" and "0 < y"
  shows "nonneg_or_infinity (js_mul v (Fin y))"
proof (cases v)
  case (Fin x)
  then show ?thesis
    using assms round_double_nonneg [of "x * y"]
    by (cases "x = 0") (simp_all add: js_mul_def signed_zero_def)
qed (use assms in \<open>simp_all add: js_mul_def signed_infinity_def\<close>)

lemma js_div_nonneg_left:
  assumes "nonneg_or_infinity v" and "0 < y"
  shows "nonneg_or_infinity (js_div v (Fin y))"
proof (cases v)
  case (Fin x)
  then show ?thesis
    using assms round_double_nonneg [of "x / y"]
    by (cases "x = 0") (simp_all add: js_div_def signed_zero_def)
qed (use assms in \<open>simp_all add: js_div_def signed_infinity_def\<close>)

lemma js_div_nonneg_right:
  assumes "0 < x" and "nonneg_or_infinity v"
  shows "nonneg_or_infinity (js_div (Fin x) v)"
proof (cases v)
  case (Fin y)
  then show ?thesis
    using assms round_double_nonneg [of "x / y"]
    by (cases "y = 0") (simp_all add: js_div_def signed_infinity_def)
qed (use assms in \<open>simp_all add: js_div_def signed_zero_def\<close>)

lemma valid_results_nonneg:
  assumes "valid (telescope d f e b r)"
  shows "nonneg_or_infinity (fst (invoke c (telescope d f e b r)))"
proof -
  from assms have pos: "0 < d" "0 < f" "0 < e" "0 < b" "0 < r"
    by (simp_all add: valid_telescope)
  have fin: "\<And>x. 0 < x \<Longrightarrow> nonneg_or_infinity (Fin x)"
    by simp
  have p1: "nonneg_or_infinity (js_mul (Fin b) (Fin f))"
    using pos by (intro js_mul_nonneg fin)
  then have "nonneg_or_infinity (js_mul (js_mul (Fin b) (Fin f)) (Fin r))"
    using pos(5) by (rule js_mul_nonneg)
  then have m: "nonneg_or_infinity (js_div (js_mul (js_mul (Fin b) (Fin f)) (Fin r)) (Fin e))"
    using pos(3) by (rule js_div_nonneg_left)
  show ?thesis
  proof (cases c)
    case CalcMagnification
    then show ?thesis using m by (simp add: calc_telescope)
  next
    case CalcLowerMagnificationLimit
    then show ?thesis
      using pos by (simp add: calc_telescope js_div_nonneg_left)
  next
    case CalcUpperMagnificationLimit
    then show ?thesis
      using pos by (simp add: calc_telescope js_mul_nonneg)
  next
    case CalcFocalRatio
    then show ?thesis
      using pos p1 by (simp add: calc_telescope js_mul_nonneg js_div_nonneg_left)
  next
    case CalcExitPupil
    then show ?thesis
      using pos m by (simp add: calc_telescope js_div_nonneg_right)
  next
    case CalcDawesLimit
    then show ?thesis
      using pos by (simp add: calc_telescope js_div_nonneg_right)
  qed
qed

lemma moderate_results_positive:
  assumes "moderate d" and "moderate f" and "moderate e" and "moderate b" and "moderate r"
  shows "\<exists>x. 0 < x \<and> fst (invoke c (telescope d f e b r)) = Fin x"
proof -
  obtain m where m: "calcMagnification (telescope d f e b r) = Fin m" "near 3 (b * f * r / e) m"
    using moderate_magnification [OF assms(2-5), of d] by blast
  obtain ep where ep: "calcExitPupil (telescope d f e b r) = Fin ep"
    "near 4 (d / (b * f * r / e)) ep"
    using moderate_exit_pupil [OF assms] by blast
  obtain fr where fr: "calcFocalRatio (telescope d f e b r) = Fin fr" "near 3 (b * f / d * r) fr"
    using moderate_focal_ratio [OF assms(1,2,4,5), of e] by blast
  obtain lo up dl where ap: "calcLowerMagnificationLimit (telescope d f e b r) = Fin lo"
    "near 1 (d / 6) lo" "calcUpperMagnificationLimit (telescope d f e b r) = Fin up"
    "near 1 (2 * d) up" "calcDawesLimit (telescope d f e b r) = Fin dl" "near 1 (116 / d) dl"
    using moderate_aperture_only [OF assms(1), of f e b r] by blast
  show ?thesis
    using m ep fr ap by (cases c) (auto dest: near_positive)
qed

text \<open>
  C9, as the specification states it: on every state that satisfies the invariant no
  computation divides by zero or produces a result that is not finite. The products and
  quotients of JavaScript overflow and underflow. With the valid aperture \<open>2 ^ 1023\<close> the
  upper magnification limit \<open>2 * 2 ^ 1023\<close> is \<open>Infinity\<close>; with the valid focal length
  \<open>2 ^ - 600\<close> and eyepiece focal length \<open>2 ^ 600\<close> the magnification is \<open>0\<close>, and the
  exit pupil, which divides by it, is \<open>Infinity\<close>.
\<close>

theorem computations_counterexample:
  "valid (telescope (2 ^ 1023) 1000 10 1 1)
   \<and> calcUpperMagnificationLimit (telescope (2 ^ 1023) 1000 10 1 1) = Infinity
   \<and> valid (telescope 200 (1 / 2 ^ 600) (2 ^ 600) 1 1)
   \<and> calcMagnification (telescope 200 (1 / 2 ^ 600) (2 ^ 600) 1 1) = Fin 0
   \<and> calcExitPupil (telescope 200 (1 / 2 ^ 600) (2 ^ 600) 1 1) = Infinity"
proof -
  have "overflow_threshold \<le> 2 * 2 ^ 1023"
    by (simp add: overflow_threshold_def)
  then have "round_double (2 * 2 ^ 1023) = Infinity"
    by (rule round_double_overflow)
  then have upper: "calcUpperMagnificationLimit (telescope (2 ^ 1023) 1000 10 1 1) = Infinity"
    by (simp add: calc_telescope js_mul_Fin)
  have tiny: "round_double (1 / 2 ^ 600) = Fin (1 / 2 ^ 600)"
    using round_double_exact [of 1 "- 600"] by (simp add: power_int_minus_divide)
  have "(0::real) < 1 / 2 ^ 600 / 2 ^ 600" and "(1::real) / 2 ^ 600 / 2 ^ 600 \<le> 2 powi (- 1075)"
    by (simp_all add: power_int_minus_divide)
  then have "round_double (1 / 2 ^ 600 / 2 ^ 600) = Fin 0"
    by (rule round_double_underflow)
  then have mag: "calcMagnification (telescope 200 (1 / 2 ^ 600) (2 ^ 600) 1 1) = Fin 0"
    using tiny by (simp add: calc_telescope js_mul_Fin js_div_Fin)
  then have "calcExitPupil (telescope 200 (1 / 2 ^ 600) (2 ^ 600) 1 1) = Infinity"
    by (simp add: calcExitPupil_def telescope_def js_div_def signed_infinity_def)
  then show ?thesis
    using upper mag by (simp add: valid_telescope)
qed

text \<open>
  C9, amended. On every state that satisfies the invariant, each of the six computations
  throws nothing, leaves the object as it was, so that calling it again gives the same
  result, and returns zero, a positive real or \<open>Infinity\<close>, never \<open>NaN\<close>; neither the
  eyepiece focal length nor the aperture diameter, by which they divide, is zero. When the
  five fields are moderate (between \<open>2 ^ - 200\<close> and \<open>2 ^ 200\<close>), every result is a
  strictly positive real, so that none is infinite and the exit pupil does not divide by
  zero.
\<close>

theorem computations_without_overflow:
  assumes "valid (telescope d f e b r)"
  shows "(\<exists>v. invoke c (telescope d f e b r) = (v, telescope d f e b r) \<and> nonneg_or_infinity v)
    \<and> invoke c (snd (invoke c (telescope d f e b r))) = invoke c (telescope d f e b r)
    \<and> \<not> is_zero (u_epFocalLength (telescope d f e b r))
    \<and> \<not> is_zero (u_telDiameter (telescope d f e b r))
    \<and> (moderate d \<and> moderate f \<and> moderate e \<and> moderate b \<and> moderate r \<longrightarrow>
         (\<exists>x. 0 < x \<and> invoke c (telescope d f e b r) = (Fin x, telescope d f e b r))
         \<and> \<not> is_zero (calcMagnification (telescope d f e b r)))"
proof -
  have same: "snd (invoke c (telescope d f e b r)) = telescope d f e b r"
    by (cases c) simp_all
  have "nonneg_or_infinity (fst (invoke c (telescope d f e b r)))"
    using assms by (rule valid_results_nonneg)
  then have first: "\<exists>v. invoke c (telescope d f e b r) = (v, telescope d f e b r)
      \<and> nonneg_or_infinity v"
    using same by (metis prod.collapse)
  have again: "invoke c (snd (invoke c (telescope d f e b r))) = invoke c (telescope d f e b r)"
    by (simp only: same)
  from assms have "0 < d" and "0 < e"
    by (simp_all add: valid_telescope)
  then have divisors: "\<not> is_zero (u_epFocalLength (telescope d f e b r))"
    "\<not> is_zero (u_telDiameter (telescope d f e b r))"
    by (simp_all add: telescope_def)
  have finite: "(\<exists>x. 0 < x \<and> invoke c (telescope d f e b r) = (Fin x, telescope d f e b r))
         \<and> \<not> is_zero (calcMagnification (telescope d f e b r))"
    if m: "moderate d \<and> moderate f \<and> moderate e \<and> moderate b \<and> moderate r"
  proof -
    obtain x where "0 < x" "fst (invoke c (telescope d f e b r)) = Fin x"
      using moderate_results_positive [of d f e b r c] m by blast
    then have "\<exists>x. 0 < x \<and> invoke c (telescope d f e b r) = (Fin x, telescope d f e b r)"
      using same by (metis prod.collapse)
    moreover obtain y where "0 < y" "fst (invoke CalcMagnification (telescope d f e b r)) = Fin y"
      using moderate_results_positive [of d f e b r CalcMagnification] m by blast
    then have "\<not> is_zero (calcMagnification (telescope d f e b r))"
      by simp
    ultimately show ?thesis by blast
  qed
  show ?thesis
    using first again divisors finite by blast
qed

theorem computations_without_overflow_witness:
  "valid (telescope 200 1000 10 1 1)
   \<and> moderate 200 \<and> moderate 1000 \<and> moderate 10 \<and> moderate 1
   \<and> invoke CalcExitPupil (telescope 200 1000 10 1 1) = (Fin 2, telescope 200 1000 10 1 1)
   \<and> nonneg_or_infinity (Fin 2)
   \<and> invoke CalcExitPupil (snd (invoke CalcExitPupil (telescope 200 1000 10 1 1)))
       = (Fin 2, telescope 200 1000 10 1 1)
   \<and> \<not> is_zero (calcMagnification (telescope 200 1000 10 1 1))"
proof -
  have v: "valid (telescope 200 1000 10 1 1)"
    by (simp add: valid_telescope)
  have m: "moderate 200 \<and> moderate 1000 \<and> moderate 10 \<and> moderate 1"
    by (simp add: moderate_def)
  have e: "invoke CalcExitPupil (telescope 200 1000 10 1 1) = (Fin 2, telescope 200 1000 10 1 1)"
    by (simp add: calc_telescope js_mul_Fin js_div_Fin round_double_numeral)
  show ?thesis
    using v m e computations_without_overflow [OF v, of CalcExitPupil] by auto
qed

text \<open>
  C10, as the specification states it: on every valid state the exit pupil equals the
  eyepiece focal length divided by the focal ratio, and their product is the eyepiece
  focal length. The two sides round differently. For \<open>d = 3\<close>, \<open>f = 400\<close>, \<open>e = 9\<close> and
  factors 1 the exit pupil is \<open>4863887597560136 / 2 ^ 56\<close> (printed 0.0675), the quotient
  of the eyepiece focal length by the focal ratio is \<open>4863887597560135 / 2 ^ 56\<close> (printed
  0.06749999999999999), and the product of exit pupil and focal ratio is
  \<open>5066549580791809 / 2 ^ 49\<close> (printed 9.000000000000002).
\<close>

theorem exit_pupil_focal_ratio_counterexample:
  "valid (telescope 3 400 9 1 1)
   \<and> get_epFocalLength (telescope 3 400 9 1 1) = Fin 9
   \<and> calcExitPupil (telescope 3 400 9 1 1) = Fin (4863887597560136 / 2 ^ 56)
   \<and> js_div (get_epFocalLength (telescope 3 400 9 1 1)) (calcFocalRatio (telescope 3 400 9 1 1))
       = Fin (4863887597560135 / 2 ^ 56)
   \<and> js_mul (calcExitPupil (telescope 3 400 9 1 1)) (calcFocalRatio (telescope 3 400 9 1 1))
       = Fin (5066549580791809 / 2 ^ 49)
   \<and> calcExitPupil (telescope 3 400 9 1 1)
       \<noteq> js_div (get_epFocalLength (telescope 3 400 9 1 1)) (calcFocalRatio (telescope 3 400 9 1 1))
   \<and> js_mul (calcExitPupil (telescope 3 400 9 1 1)) (calcFocalRatio (telescope 3 400 9 1 1))
       \<noteq> get_epFocalLength (telescope 3 400 9 1 1)"
proof -
  define m :: real where "m = 6254999482459022 / 2 ^ 47"
  define p :: real where "p = 4863887597560136 / 2 ^ 56"
  define q :: real where "q = 4691249611844267 / 2 ^ 45"
  define p' :: real where "p' = 4863887597560135 / 2 ^ 56"
  have r1: "round_double (400 / 9) = Fin m"
    using round_double_value [of 5 "400 / 9" 6254999482459022]
    by (simp add: round_half_even_def Let_def m_def)
  have r2: "round_double (3 / m) = Fin p"
    using round_double_value [of "- 4" "3 / m" 4863887597560136]
    by (simp add: round_half_even_def Let_def m_def p_def)
  have r3: "round_double (400 / 3) = Fin q"
    using round_double_value [of 7 "400 / 3" 4691249611844267]
    by (simp add: round_half_even_def Let_def q_def)
  have r4: "round_double (9 / q) = Fin p'"
    using round_double_value [of "- 4" "9 / q" 4863887597560135]
    by (simp add: round_half_even_def Let_def q_def p'_def)
  have r5: "round_double (p * q) = Fin (5066549580791809 / 2 ^ 49)"
    using round_double_value [of 3 "p * q" 5066549580791809]
    by (simp add: round_half_even_def Let_def p_def q_def)
  have nz: "m \<noteq> 0" "p \<noteq> 0" "q \<noteq> 0"
    by (simp_all add: m_def p_def q_def)
  have one: "js_mul (Fin 1) (Fin 400) = Fin 400" "js_mul (Fin 400) (Fin 1) = Fin 400"
    by (simp_all add: js_mul_Fin round_double_numeral)
  have d1: "js_div (Fin 400) (Fin 9) = Fin m"
    using r1 js_div_Fin [of 400 9] by simp
  have d2: "js_div (Fin 3) (Fin m) = Fin p"
    using r2 nz js_div_Fin [of 3 m] by simp
  have ep: "calcExitPupil (telescope 3 400 9 1 1) = Fin p"
    by (simp only: calc_telescope one d1 d2)
  have "js_div (Fin 400) (Fin 3) = Fin q"
    using r3 js_div_Fin [of 400 3] by simp
  moreover have "js_mul (Fin q) (Fin 1) = round_double q"
    using nz js_mul_Fin [of q 1] by simp
  moreover have "round_double q = Fin q"
    using round_double_exact [of 4691249611844267 "- 45"]
    by (simp add: q_def power_int_minus_divide)
  ultimately have fr: "calcFocalRatio (telescope 3 400 9 1 1) = Fin q"
    unfolding calc_telescope one by simp
  have e: "get_epFocalLength (telescope 3 400 9 1 1) = Fin 9"
    by (simp add: get_epFocalLength_def telescope_def)
  have quotient: "js_div (Fin 9) (Fin q) = Fin p'"
    using r4 nz js_div_Fin [of 9 q] by simp
  have product: "js_mul (Fin p) (Fin q) = Fin (5066549580791809 / 2 ^ 49)"
    using r5 nz js_mul_Fin [of p q] by simp
  have "p \<noteq> p'" and "(5066549580791809 / 2 ^ 49 :: real) \<noteq> 9"
    by (simp_all add: p_def p'_def)
  then show ?thesis
    unfolding ep fr e quotient product
    by (simp add: valid_telescope p_def p'_def)
qed

text \<open>
  C10, amended. On every valid state with moderate fields the exit pupil and the focal
  ratio are positive reals, the product of the two (over the reals) is within \<open>2 ^ - 49\<close>
  (relative) of the eyepiece focal length, and the exit pupil is within \<open>2 ^ - 49\<close>
  (relative) of the quotient of the eyepiece focal length by the focal ratio as JavaScript
  computes it. For \<open>d = 200\<close>, \<open>f = 1000\<close>, \<open>e = 10\<close> and factors 1 the two are equal.
\<close>

theorem exit_pupil_focal_ratio:
  assumes "valid (telescope d f e b r)"
    and "moderate d" and "moderate f" and "moderate e" and "moderate b" and "moderate r"
  shows "(\<exists>p q p'. calcExitPupil (telescope d f e b r) = Fin p
        \<and> calcFocalRatio (telescope d f e b r) = Fin q
        \<and> js_div (get_epFocalLength (telescope d f e b r)) (calcFocalRatio (telescope d f e b r))
            = Fin p'
        \<and> \<bar>p * q - e\<bar> \<le> e / 2 ^ 49 \<and> \<bar>p - p'\<bar> \<le> p' / 2 ^ 49)
    \<and> calcExitPupil (telescope 200 1000 10 1 1)
        = js_div (get_epFocalLength (telescope 200 1000 10 1 1))
            (calcFocalRatio (telescope 200 1000 10 1 1))
    \<and> js_mul (calcExitPupil (telescope 200 1000 10 1 1)) (calcFocalRatio (telescope 200 1000 10 1 1))
        = get_epFocalLength (telescope 200 1000 10 1 1)"
proof -
  from assms(1) have pos: "0 < d" "0 < f" "0 < e" "0 < b" "0 < r"
    by (simp_all add: valid_telescope)
  obtain p1 p where p1: "js_mul (Fin b) (Fin f) = Fin p1"
    and p: "calcExitPupil (telescope d f e b r) = Fin p" "near 3 (d / (p1 * r / e)) p"
    using moderate_exit_pupil [OF assms(2-6)] by blast
  obtain p1' q where p1': "js_mul (Fin b) (Fin f) = Fin p1'"
    and q: "calcFocalRatio (telescope d f e b r) = Fin q" "pow2_between (- 800) 800 q"
      "near 2 (p1' / d * r) q"
    using moderate_focal_ratio [OF assms(2,3,5,6), of e] by blast
  have same: "p1' = p1"
    using p1 p1' by simp
  have "0 < p1 / d * r"
    using q(3) by (simp add: near_def same)
  then have p1_pos: "0 < p1"
    using pos by (simp add: zero_less_mult_iff zero_less_divide_iff)
  have "d / (p1 * r / e) * (p1 / d * r) = e"
    using pos p1_pos by (simp add: field_simps)
  then have product: "near 5 e (p * q)"
    using near_mult [OF p(2) q(3) [unfolded same]] by simp
  then have bound1: "\<bar>p * q - e\<bar> \<le> e / 2 ^ 49"
    using near_bound [OF _ rounding_errors(4)] by blast
  obtain p' where p': "js_div (Fin e) (Fin q) = Fin p'" "near 1 (e / q) p'"
    using js_div_between [OF assms(4) [unfolded moderate_between] q(2)] by auto
  have q_pos: "0 < q"
    using between_pos [OF q(2)] .
  have "near 5 (e / q) (p * q / q)"
    using near_div [OF product near_refl [OF q_pos]] by simp
  then have "near 5 (e / q) p"
    using q_pos by simp
  then have "near 6 p' p"
    using near_trans [OF near_sym [OF p'(2)]] by (simp add: eval_nat_numeral)
  then have bound2: "\<bar>p - p'\<bar> \<le> p' / 2 ^ 49"
    using near_bound [OF _ rounding_errors(5)] by blast
  have "js_div (get_epFocalLength (telescope d f e b r)) (calcFocalRatio (telescope d f e b r))
      = Fin p'"
    using p'(1) q(1) by (simp add: get_epFocalLength_def telescope_def)
  then have general: "\<exists>p q p'. calcExitPupil (telescope d f e b r) = Fin p
        \<and> calcFocalRatio (telescope d f e b r) = Fin q
        \<and> js_div (get_epFocalLength (telescope d f e b r)) (calcFocalRatio (telescope d f e b r))
            = Fin p'
        \<and> \<bar>p * q - e\<bar> \<le> e / 2 ^ 49 \<and> \<bar>p - p'\<bar> \<le> p' / 2 ^ 49"
    using p(1) q(1) bound1 bound2 by blast
  have ep: "calcExitPupil (telescope 200 1000 10 1 1) = Fin 2"
    and fr: "calcFocalRatio (telescope 200 1000 10 1 1) = Fin 5"
    by (simp_all add: calc_telescope js_mul_Fin js_div_Fin round_double_numeral)
  have ge: "get_epFocalLength (telescope 200 1000 10 1 1) = Fin 10"
    by (simp add: get_epFocalLength_def telescope_def)
  have "js_div (Fin 10) (Fin 5) = Fin 2" and "js_mul (Fin 2) (Fin 5) = Fin 10"
    by (simp_all add: js_mul_Fin js_div_Fin round_double_numeral)
  then show ?thesis
    using general unfolding ep fr ge by simp
qed

theorem exit_pupil_focal_ratio_witness:
  "valid (telescope 3 400 9 1 1)
   \<and> moderate 3 \<and> moderate 400 \<and> moderate 9 \<and> moderate 1
   \<and> (\<exists>p q p'. calcExitPupil (telescope 3 400 9 1 1) = Fin p
        \<and> calcFocalRatio (telescope 3 400 9 1 1) = Fin q
        \<and> js_div (get_epFocalLength (telescope 3 400 9 1 1)) (calcFocalRatio (telescope 3 400 9 1 1))
            = Fin p'
        \<and> \<bar>p * q - 9\<bar> \<le> 9 / 2 ^ 49 \<and> \<bar>p - p'\<bar> \<le> p' / 2 ^ 49)"
proof -
  have v: "valid (telescope 3 400 9 1 1)"
    by (simp add: valid_telescope)
  have m: "moderate 3" "moderate 400" "moderate 9" "moderate 1"
    by (simp_all add: moderate_def)
  show ?thesis
    using v m exit_pupil_focal_ratio [OF v m(1,2,3,4,4)] by blast
qed


end
